theory Spec2Isabelle
  imports Main "HOL-Library.AList" "HOL-Library.Char_ord" "HOL-Library.List_Lexorder"
begin

section \<open>The file-management backend: data model and collaborators\<close>

text \<open>
  The backend keeps project and file metadata in one DynamoDB table and file bytes in one S3
  bucket. Both are collaborators outside the repository; the embedding models the part of
  their documented behaviour that the service and controller code relies on.

  A DynamoDB item is an attribute map. The TypeScript interfaces \<open>FileMetadata\<close> and
  \<open>Project\<close> are erased at run time (\<open>result.Item as Project\<close> is an unchecked cast), so a row
  is modelled as the attribute map it is, and a property read is a lookup in it.

  A string is the sequence of its UTF-16 code units, taken in the range below 256 (one
  \<open>char\<close> each). Stored numbers (sizes, counters) are integers, taken in the range where
  JavaScript and DynamoDB arithmetic are exact; fractions are outside the model.
\<close>

datatype attr = S string | N int

type_synonym item = "string \<rightharpoonup> attr"

text \<open>The primary key of the single table: partition key \<open>PK\<close> and sort key \<open>SK\<close>.\<close>

type_synonym key = "string \<times> string"

text \<open>
  The table is an association list from keys to items; \<open>map_of\<close> is the row lookup. The bucket
  is the set of object keys that hold an object.
\<close>

type_synonym table = "(key \<times> item) list"

type_synonym bucket = "string set"

record world =
  tbl :: table
  s3 :: bucket

text \<open>
  Errors thrown by the AWS clients, by their \<open>name\<close>. \<open>ServiceError\<close> stands for every
  failure the code does not distinguish (throttling, network, credentials).
\<close>

datatype aws_error =
    ConditionalCheckFailedException
  | ValidationException
  | NotFound
  | ServiceError

text \<open>
  A request handler makes its collaborator calls in sequence. Each call site can fail for a
  reason outside the program; the environment of a request says which ones do.
\<close>

datatype call =
    CreateProject | GetProjectById | GetProjectsByUser | UpdateProject | UpdateProjectStats
  | CreateFileMetadata | GetFileById | GetFilesByProject | UpdateFileStatus | HardDeleteFile
  | ObjectExists | DeleteObject | GenerateDownloadUrl

type_synonym faults = "call \<Rightarrow> aws_error option"

definition no_faults :: faults where
  "no_faults = (\<lambda>c. None)"

subsection \<open>JavaScript numbers\<close>

text \<open>
  The value of a JavaScript number that came from a run of digits: an integer that a double
  represents, or an infinity. \<open>to_double\<close> is the conversion of an exact integer to the
  nearest double (53 significant bits, ties to even, overflow to infinity).
\<close>

datatype number = Finite int | PosInfinity | NegInfinity

function bit_length :: "int \<Rightarrow> nat" where
  "bit_length n = (if n \<le> 0 then 0 else Suc (bit_length (n div 2)))"
  by pat_completeness auto
termination
  by (relation "measure nat") auto

declare bit_length.simps [simp del]

definition round_to_53_bits :: "int \<Rightarrow> int" where
  "round_to_53_bits n =
    (if bit_length n \<le> 53 then n
     else
       (let shift = bit_length n - 53;
            q = n div 2 ^ shift;
            r = n mod 2 ^ shift;
            half = 2 ^ (shift - 1);
            q' = (if half < r \<or> (r = half \<and> odd q) then q + 1 else q)
        in q' * 2 ^ shift))"

definition to_double :: "int \<Rightarrow> number" where
  "to_double v =
    (let m = round_to_53_bits \<bar>v\<bar> in
     if 1024 < bit_length m then (if v < 0 then NegInfinity else PosInfinity)
     else Finite (if v < 0 then - m else m))"

subsection \<open>DynamoDB document client\<close>

text \<open>
  \<open>PutCommand\<close> with \<open>ConditionExpression: attribute_not_exists(PK) AND attribute_not_exists(SK)\<close>:
  the condition is evaluated on the item stored under the new item's key, so the write is
  refused exactly when a row with that key exists.
\<close>

definition key_of :: "item \<Rightarrow> key option" where
  "key_of it = (case (it ''PK'', it ''SK'') of
      (Some (S pk), Some (S sk)) \<Rightarrow> Some (pk, sk)
    | _ \<Rightarrow> None)"

definition PutCommand_if_absent :: "aws_error option \<Rightarrow> item \<Rightarrow> table \<Rightarrow> aws_error + table" where
  "PutCommand_if_absent fault it t =
    (case fault of
       Some e \<Rightarrow> Inl e
     | None \<Rightarrow>
        (case key_of it of
           None \<Rightarrow> Inl ValidationException
         | Some k \<Rightarrow>
            (case map_of t k of
               Some old \<Rightarrow> Inl ConditionalCheckFailedException
             | None \<Rightarrow> Inr (AList.update k it t))))"

definition GetCommand :: "aws_error option \<Rightarrow> key \<Rightarrow> table \<Rightarrow> aws_error + item option" where
  "GetCommand fault k t = (case fault of Some e \<Rightarrow> Inl e | None \<Rightarrow> Inr (map_of t k))"

text \<open>
  \<open>UpdateCommand\<close> without a condition. DynamoDB's UpdateItem edits the item stored under the
  key or, when there is none, adds a new item holding the key attributes and the attributes the
  expression sets. The two forms of \<open>SET\<close> action the code uses are a plain assignment and
  \<open>a = a + :delta\<close>; every right-hand side is evaluated on the item as it was before the
  update, and an operand that is missing or not a number is a validation error that leaves the
  table untouched. \<open>ReturnValues: ALL_NEW\<close> returns the item as it is after the update.
\<close>

datatype action = Assign string attr | Increment string int

fun apply_action :: "item \<Rightarrow> action \<Rightarrow> item option \<Rightarrow> item option" where
  "apply_action old a None = None"
| "apply_action old (Assign n v) (Some new) = Some (new(n \<mapsto> v))"
| "apply_action old (Increment n d) (Some new) =
     (case old n of
        Some (N x) \<Rightarrow> Some (new(n \<mapsto> N (x + d)))
      | _ \<Rightarrow> None)"

definition apply_actions :: "item \<Rightarrow> action list \<Rightarrow> item option" where
  "apply_actions old acts = fold (apply_action old) acts (Some old)"

definition UpdateCommand :: "aws_error option \<Rightarrow> key \<Rightarrow> action list \<Rightarrow> table \<Rightarrow> aws_error + (item \<times> table)" where
  "UpdateCommand fault k acts t =
    (case fault of
       Some e \<Rightarrow> Inl e
     | None \<Rightarrow>
        (let old = (case map_of t k of
                      Some it \<Rightarrow> it
                    | None \<Rightarrow> [''PK'' \<mapsto> S (fst k), ''SK'' \<mapsto> S (snd k)])
         in case apply_actions old acts of
              None \<Rightarrow> Inl ValidationException
            | Some new \<Rightarrow> Inr (new, AList.update k new t)))"

text \<open>\<open>DeleteCommand\<close> without a condition removes the row; deleting an absent row succeeds.\<close>

definition DeleteCommand :: "aws_error option \<Rightarrow> key \<Rightarrow> table \<Rightarrow> aws_error + table" where
  "DeleteCommand fault k t = (case fault of Some e \<Rightarrow> Inl e | None \<Rightarrow> Inr (AList.delete k t))"

text \<open>
  \<open>QueryCommand\<close> with \<open>PK = :pk AND begins_with(SK, :skPrefix)\<close>. The rows of the partition
  whose sort key has the prefix are read in ascending sort-key order, starting after
  \<open>ExclusiveStartKey\<close> when one is given. \<open>Limit\<close> bounds the number of rows read, before the
  filter is applied; when the bound stops the read, the key of the last row read is returned as
  \<open>LastEvaluatedKey\<close>. A limit that is not a number of at least 1 is a validation error.
  (The 1 MB page bound of the real service is not modelled.)

  The start key is whatever value the caller passes: \<open>KeyObject k\<close> is an object holding the
  strings \<open>PK\<close> and \<open>SK\<close> of a key, \<open>OtherValue\<close> is any other value (a number, a string, an
  array, an object that is no key of the table). The request is rejected for \<open>OtherValue\<close>
  and for a key outside the queried key range. (The value \<open>null\<close> is not modelled.)
\<close>

datatype start_key = KeyObject key | OtherValue

definition in_range :: "string \<Rightarrow> string \<Rightarrow> key \<Rightarrow> bool" where
  "in_range pk skPrefix k = (fst k = pk \<and> take (length skPrefix) (snd k) = skPrefix)"

definition valid_limit :: "number option \<Rightarrow> bool" where
  "valid_limit limit = (case limit of None \<Rightarrow> True | Some (Finite n) \<Rightarrow> 1 \<le> n | Some x \<Rightarrow> False)"

definition valid_start :: "string \<Rightarrow> string \<Rightarrow> start_key option \<Rightarrow> bool" where
  "valid_start pk skPrefix startKey =
    (case startKey of None \<Rightarrow> True | Some (KeyObject k) \<Rightarrow> in_range pk skPrefix k
     | Some OtherValue \<Rightarrow> False)"

definition QueryCommand ::
  "aws_error option \<Rightarrow> string \<Rightarrow> string \<Rightarrow> (item \<Rightarrow> bool) \<Rightarrow> number option \<Rightarrow> start_key option
     \<Rightarrow> table \<Rightarrow> aws_error + (item list \<times> key option)" where
  "QueryCommand fault pk skPrefix filterExpression limit startKey t =
    (case fault of
       Some e \<Rightarrow> Inl e
     | None \<Rightarrow>
        if \<not> valid_limit limit then Inl ValidationException
        else if \<not> valid_start pk skPrefix startKey then Inl ValidationException
        else
          (let part = sort_key (\<lambda>r. snd (fst r))
                        (filter (\<lambda>r. in_range pk skPrefix (fst r)) (AList.clearjunk t));
               rest = (case startKey of
                         Some (KeyObject k) \<Rightarrow> filter (\<lambda>r. snd k < snd (fst r)) part
                       | _ \<Rightarrow> part);
               page = (case limit of Some (Finite n) \<Rightarrow> take (nat n) rest | _ \<Rightarrow> rest);
               lastKey = (case limit of
                            Some (Finite n) \<Rightarrow>
                              if nat n \<le> length rest then Some (fst (last page)) else None
                          | _ \<Rightarrow> None)
           in Inr (map snd (filter (\<lambda>r. filterExpression (snd r)) page), lastKey)))"

subsection \<open>S3 client\<close>

text \<open>
  The object key of a command is the value read from a row. \<open>HeadObjectCommand\<close> succeeds when
  the bucket holds an object under the key and fails with an error named \<open>NotFound\<close>
  otherwise. \<open>DeleteObjectCommand\<close> removes the object; deleting an absent object succeeds.
  The interface \<open>FileMetadata\<close> types \<open>s3Key\<close> as a string; on a row that breaks the interface
  (no string under \<open>s3Key\<close>) the command is taken to be rejected.
\<close>

definition HeadObjectCommand :: "aws_error option \<Rightarrow> attr option \<Rightarrow> bucket \<Rightarrow> aws_error + unit" where
  "HeadObjectCommand fault k b =
    (case fault of
       Some e \<Rightarrow> Inl e
     | None \<Rightarrow>
        (case k of
           Some (S key) \<Rightarrow> if key \<in> b then Inr () else Inl NotFound
         | _ \<Rightarrow> Inl ValidationException))"

definition DeleteObjectCommand :: "aws_error option \<Rightarrow> attr option \<Rightarrow> bucket \<Rightarrow> aws_error + bucket" where
  "DeleteObjectCommand fault k b =
    (case fault of
       Some e \<Rightarrow> Inl e
     | None \<Rightarrow>
        (case k of
           Some (S key) \<Rightarrow> Inr (b - {key})
         | _ \<Rightarrow> Inl ValidationException))"

section \<open>Services\<close>

subsection \<open>S3Service\<close>

text \<open>\<open>replace(/[^a-zA-Z0-9._-]/g, '_')\<close>, on strings as sequences of 8-bit code units.\<close>

definition is_safe_char :: "char \<Rightarrow> bool" where
  "is_safe_char c =
    ((CHR ''a'' \<le> c \<and> c \<le> CHR ''z'') \<or> (CHR ''A'' \<le> c \<and> c \<le> CHR ''Z'')
     \<or> (CHR ''0'' \<le> c \<and> c \<le> CHR ''9'')
     \<or> c = CHR ''.'' \<or> c = CHR ''_'' \<or> c = CHR ''-'')"

definition replace_unsafe :: "string \<Rightarrow> string" where
  "replace_unsafe s = map (\<lambda>c. if is_safe_char c then c else CHR ''_'') s"

definition generateS3Key :: "string \<Rightarrow> string \<Rightarrow> string \<Rightarrow> string" where
  "generateS3Key projectId fileId fileName =
    (let sanitizedFileName = replace_unsafe fileName
     in projectId @ ''/'' @ fileId @ ''/'' @ sanitizedFileName)"

definition objectExists :: "aws_error option \<Rightarrow> attr option \<Rightarrow> bucket \<Rightarrow> aws_error + bool" where
  "objectExists fault s3Key b =
    (case HeadObjectCommand fault s3Key b of
       Inr u \<Rightarrow> Inr True
     | Inl e \<Rightarrow> if e = NotFound then Inr False else Inl e)"

definition deleteObject :: "aws_error option \<Rightarrow> attr option \<Rightarrow> bucket \<Rightarrow> aws_error + bucket" where
  "deleteObject fault s3Key b = DeleteObjectCommand fault s3Key b"

text \<open>
  \<open>generateDownloadUrl\<close> signs a GET for the key locally, with the file name in the
  content-disposition header. The signed URL is represented by the key it is signed for.
\<close>

definition generateDownloadUrl :: "aws_error option \<Rightarrow> attr option \<Rightarrow> aws_error + string" where
  "generateDownloadUrl fault s3Key =
    (case fault of
       Some e \<Rightarrow> Inl e
     | None \<Rightarrow> (case s3Key of Some (S key) \<Rightarrow> Inr key | _ \<Rightarrow> Inl ValidationException))"

subsection \<open>DynamoDBService: projects\<close>

definition project_key :: "string \<Rightarrow> string \<Rightarrow> key" where
  "project_key userId projectId = (''USER#'' @ userId, ''PROJECT#'' @ projectId)"

definition file_key :: "string \<Rightarrow> string \<Rightarrow> key" where
  "file_key projectId fileId = (''PROJECT#'' @ projectId, ''FILE#'' @ fileId)"

text \<open>
  The item literal of \<open>createProject\<close>. The document client is configured with
  \<open>removeUndefinedValues\<close>, so an undefined description is not stored.
\<close>

definition project_item :: "string \<Rightarrow> string \<Rightarrow> string \<Rightarrow> string \<Rightarrow> string option \<Rightarrow> item" where
  "project_item now userId projectId name description =
    (let it = [''PK'' \<mapsto> S (''USER#'' @ userId),
               ''SK'' \<mapsto> S (''PROJECT#'' @ projectId),
               ''projectId'' \<mapsto> S projectId,
               ''name'' \<mapsto> S name,
               ''ownerId'' \<mapsto> S userId,
               ''createdAt'' \<mapsto> S now,
               ''updatedAt'' \<mapsto> S now,
               ''status'' \<mapsto> S ''active'',
               ''fileCount'' \<mapsto> N 0,
               ''totalSize'' \<mapsto> N 0]
     in case description of None \<Rightarrow> it | Some d \<Rightarrow> it(''description'' \<mapsto> S d))"

definition DynamoDBService_createProject ::
  "aws_error option \<Rightarrow> string \<Rightarrow> string \<Rightarrow> string \<Rightarrow> string \<Rightarrow> string option \<Rightarrow> table
     \<Rightarrow> aws_error + (item \<times> table)" where
  "DynamoDBService_createProject fault now userId projectId name description t =
    (let it = project_item now userId projectId name description
     in case PutCommand_if_absent fault it t of
          Inl e \<Rightarrow> Inl e
        | Inr t' \<Rightarrow> Inr (it, t'))"

text \<open>
  \<open>if (options?.status)\<close>: an option is used when it is a non-empty string.
\<close>

definition given :: "string option \<Rightarrow> string option" where
  "given x = (case x of None \<Rightarrow> None | Some v \<Rightarrow> if v = [] then None else Some v)"

text \<open>
  The status filter of both listings: \<open>#status = :status\<close> for an explicit status and
  \<open>#status <> :deletedStatus\<close> otherwise. A row without a status attribute is not equal to
  any value.
\<close>

definition status_filter :: "string option \<Rightarrow> item \<Rightarrow> bool" where
  "status_filter status it =
    (case given status of
       Some st \<Rightarrow> it ''status'' = Some (S st)
     | None \<Rightarrow> it ''status'' \<noteq> Some (S ''deleted''))"


definition getProjectsByUser ::
  "aws_error option \<Rightarrow> string \<Rightarrow> string option \<Rightarrow> number option \<Rightarrow> start_key option \<Rightarrow> table
     \<Rightarrow> aws_error + (item list \<times> key option)" where
  "getProjectsByUser fault userId status limit lastKey t =
    QueryCommand fault (''USER#'' @ userId) ''PROJECT#'' (status_filter status) limit lastKey t"


text \<open>
  \<open>updateProjectStats\<close>. The size delta is computed from the \<open>fileSize\<close> read from a row; the
  interface types it as a number, and on a row that breaks the interface (\<open>None\<close> here) the
  update is taken to be rejected.
\<close>

definition updateProjectStats ::
  "aws_error option \<Rightarrow> string \<Rightarrow> string \<Rightarrow> string \<Rightarrow> int \<Rightarrow> int option \<Rightarrow> table \<Rightarrow> aws_error + table" where
  "updateProjectStats fault now userId projectId fileCountDelta sizeDelta t =
    (case sizeDelta of
       None \<Rightarrow> (case fault of Some e \<Rightarrow> Inl e | None \<Rightarrow> Inl ValidationException)
     | Some d \<Rightarrow>
        (case UpdateCommand fault (project_key userId projectId)
                [Increment ''fileCount'' fileCountDelta, Increment ''totalSize'' d,
                 Assign ''updatedAt'' (S now)] t of
           Inl e \<Rightarrow> Inl e
         | Inr (attributes, t') \<Rightarrow> Inr t'))"


subsection \<open>DynamoDBService: files\<close>

text \<open>The fields of \<open>CreateFileMetadata\<close>, prefixed to keep them apart from variables.\<close>

record CreateFileMetadata =
  m_fileId :: string
  m_projectId :: string
  m_fileName :: string
  m_fileType :: string
  m_fileExtension :: string
  m_fileSize :: int
  m_s3Key :: string
  m_uploadedBy :: string

definition file_item :: "string \<Rightarrow> CreateFileMetadata \<Rightarrow> item" where
  "file_item now metadata =
    [''PK'' \<mapsto> S (''PROJECT#'' @ m_projectId metadata),
     ''SK'' \<mapsto> S (''FILE#'' @ m_fileId metadata),
     ''fileId'' \<mapsto> S (m_fileId metadata),
     ''projectId'' \<mapsto> S (m_projectId metadata),
     ''fileName'' \<mapsto> S (m_fileName metadata),
     ''fileType'' \<mapsto> S (m_fileType metadata),
     ''fileExtension'' \<mapsto> S (m_fileExtension metadata),
     ''fileSize'' \<mapsto> N (m_fileSize metadata),
     ''s3Key'' \<mapsto> S (m_s3Key metadata),
     ''uploadedBy'' \<mapsto> S (m_uploadedBy metadata),
     ''uploadedAt'' \<mapsto> S now,
     ''status'' \<mapsto> S ''pending'']"

definition createFileMetadata ::
  "aws_error option \<Rightarrow> string \<Rightarrow> CreateFileMetadata \<Rightarrow> table \<Rightarrow> aws_error + (item \<times> table)" where
  "createFileMetadata fault now metadata t =
    (let it = file_item now metadata
     in case PutCommand_if_absent fault it t of
          Inl e \<Rightarrow> Inl e
        | Inr t' \<Rightarrow> Inr (it, t'))"

definition getFileById :: "aws_error option \<Rightarrow> string \<Rightarrow> string \<Rightarrow> table \<Rightarrow> aws_error + item option" where
  "getFileById fault projectId fileId t = GetCommand fault (file_key projectId fileId) t"

definition file_filter :: "string option \<Rightarrow> string option \<Rightarrow> item \<Rightarrow> bool" where
  "file_filter fileType status it =
    ((case given fileType of
        Some ft \<Rightarrow> it ''fileType'' = Some (S ft)
      | None \<Rightarrow> True)
     \<and> status_filter status it)"

definition getFilesByProject ::
  "aws_error option \<Rightarrow> string \<Rightarrow> string option \<Rightarrow> string option \<Rightarrow> number option
     \<Rightarrow> start_key option \<Rightarrow> table \<Rightarrow> aws_error + (item list \<times> key option)" where
  "getFilesByProject fault projectId fileType status limit lastKey t =
    QueryCommand fault (''PROJECT#'' @ projectId) ''FILE#'' (file_filter fileType status)
      limit lastKey t"

definition updateFileStatus ::
  "aws_error option \<Rightarrow> string \<Rightarrow> string \<Rightarrow> string \<Rightarrow> table \<Rightarrow> aws_error + (item option \<times> table)" where
  "updateFileStatus fault projectId fileId status t =
    (case UpdateCommand fault (file_key projectId fileId) [Assign ''status'' (S status)] t of
       Inl e \<Rightarrow> Inl e
     | Inr (attributes, t') \<Rightarrow> Inr (Some attributes, t'))"

definition DynamoDBService_deleteFile ::
  "aws_error option \<Rightarrow> string \<Rightarrow> string \<Rightarrow> table \<Rightarrow> aws_error + (item option \<times> table)" where
  "DynamoDBService_deleteFile fault projectId fileId t =
    updateFileStatus fault projectId fileId ''deleted'' t"

definition hardDeleteFile :: "aws_error option \<Rightarrow> string \<Rightarrow> string \<Rightarrow> table \<Rightarrow> aws_error + table" where
  "hardDeleteFile fault projectId fileId t = DeleteCommand fault (file_key projectId fileId) t"

section \<open>HTTP layer\<close>

text \<open>
  \<open>sendSuccess\<close> and \<open>sendError\<close> write the uniform envelope; the model keeps the status code,
  the payload or the error code and message, and leaves the \<open>meta.timestamp\<close> field out.
  A pagination cursor in a payload is the store's key; its base64 JSON form on the wire is not
  modelled.
\<close>

datatype ErrorCode =
    VALIDATION_ERROR | FILE_NOT_FOUND | PROJECT_NOT_FOUND | PROJECT_ALREADY_EXISTS | INTERNAL_ERROR

datatype payload =
    Created string string "string option" string
  | Row "item option"
  | Message string
  | Listing "item list" "key option"
  | Download "attr option" "attr option" string

datatype body = Ok payload | Err ErrorCode string

datatype response = Response nat body

definition sendSuccess :: "payload \<Rightarrow> nat \<Rightarrow> response" where
  "sendSuccess data statusCode = Response statusCode (Ok data)"

definition sendError :: "ErrorCode \<Rightarrow> string \<Rightarrow> nat \<Rightarrow> response" where
  "sendError code message statusCode = Response statusCode (Err code message)"

text \<open>\<open>(req as ...).userId || 'demo-user'\<close>: an unset or empty user id is the demo user.\<close>

definition userIdOf :: "string option \<Rightarrow> string" where
  "userIdOf u = (case u of None \<Rightarrow> ''demo-user'' | Some s \<Rightarrow> if s = [] then ''demo-user'' else s)"

text \<open>
  The white space and line terminator code units of JavaScript below 256: tab, line feed,
  vertical tab, form feed, carriage return, space and no-break space. \<open>trim\<close> is
  \<open>String.prototype.trim\<close>.
\<close>

definition is_space :: "char \<Rightarrow> bool" where
  "is_space c =
    (c \<in> set [CHR 0x09, CHR 0x0A, CHR 0x0B, CHR 0x0C, CHR 0x0D, CHR 0x20, CHR 0xA0])"

definition trim :: "string \<Rightarrow> string" where
  "trim s = rev (dropWhile is_space (rev (dropWhile is_space s)))"

section \<open>File utilities\<close>

text \<open>
  \<open>sanitizeFileName\<close> uses \<open>path.basename\<close> and \<open>path.extname\<close> of Node's POSIX path
  module (the service runs on Linux). \<open>basename\<close> is the last component of the path, trailing
  slashes ignored.
\<close>

definition basename :: "string \<Rightarrow> string" where
  "basename p = rev (takeWhile (\<lambda>c. c \<noteq> CHR ''/'') (dropWhile (\<lambda>c. c = CHR ''/'') (rev p)))"

text \<open>
  \<open>extname\<close> is the part of the last component from its last dot on; it is empty when the
  component has no dot, when its only dot is its first character, and when the component is
  \<open>..\<close>.
\<close>

definition extname :: "string \<Rightarrow> string" where
  "extname p =
    (let b = basename p;
         suffix = rev (takeWhile (\<lambda>c. c \<noteq> CHR ''.'') (rev b));
         stem = take (length b - length suffix - 1) b
     in if CHR ''.'' \<notin> set b \<or> stem = [] \<or> b = ''..'' then []
        else CHR ''.'' # suffix)"

text \<open>
  \<open>path.basename(path, suffix)\<close> removes the suffix from the last component when the
  component ends with it and is longer than it. (When the whole path is the suffix the result
  is empty; when the component is only the tail of the suffix, Node returns the component with
  the trailing slashes of the path.)
\<close>

definition basename_suffix :: "string \<Rightarrow> string \<Rightarrow> string" where
  "basename_suffix p suffix =
    (if suffix \<noteq> [] \<and> length suffix \<le> length p then
       if suffix = p then []
       else
         (let b = basename p in
          if length suffix < length b \<and> drop (length b - length suffix) b = suffix
            then take (length b - length suffix) b
          else if length b < length suffix \<and> drop (length suffix - length b) suffix = b
            then b @ takeWhile (\<lambda>c. c = CHR ''/'') (rev p)
          else b)
     else basename p)"

text \<open>
  \<open>toLowerCase\<close> on code units below 256: the capitals are \<open>A\<close> to \<open>Z\<close> and the Latin-1
  capitals \<open>0xC0\<close> to \<open>0xDE\<close> without the multiplication sign \<open>0xD7\<close>; each has its small
  letter 32 places further on.
\<close>

definition is_capital :: "char \<Rightarrow> bool" where
  "is_capital c =
    ((CHR ''A'' \<le> c \<and> c \<le> CHR ''Z'') \<or> (CHR 0xC0 \<le> c \<and> c \<le> CHR 0xDE \<and> c \<noteq> CHR 0xD7))"

definition lower_char :: "char \<Rightarrow> char" where
  "lower_char c = (if is_capital c then char_of (of_char c + (32::nat)) else c)"

definition toLowerCase :: "string \<Rightarrow> string" where
  "toLowerCase s = map lower_char s"

text \<open>\<open>replace(/_{2,}/g, '_')\<close>: every run of underscores becomes one underscore.\<close>

fun collapse_underscores :: "string \<Rightarrow> string" where
  "collapse_underscores (a # b # cs) =
     (if a = CHR ''_'' \<and> b = CHR ''_'' then collapse_underscores (b # cs)
      else a # collapse_underscores (b # cs))"
| "collapse_underscores cs = cs"

definition sanitizeFileName :: "string \<Rightarrow> string" where
  "sanitizeFileName fileName =
    (let baseName = basename fileName;
         ext = extname baseName;
         nameWithoutExt = basename_suffix baseName ext;
         sanitized = take 200 (collapse_underscores (replace_unsafe nameWithoutExt))
     in sanitized @ toLowerCase ext)"

definition getFileExtension :: "string \<Rightarrow> string" where
  "getFileExtension fileName = toLowerCase (extname fileName)"

section \<open>Query parameters\<close>

text \<open>
  A value of \<open>req.query\<close> is a string, an array (a repeated parameter) or a nested object.
  \<open>js_string\<close> is the string conversion \<open>parseInt\<close> applies to its argument.
\<close>

datatype qval = QStr string | QArr "string list" | QObj

fun join_comma :: "string list \<Rightarrow> string" where
  "join_comma [] = []"
| "join_comma [x] = x"
| "join_comma (x # y # ys) = x @ '','' @ join_comma (y # ys)"

fun js_string :: "qval \<Rightarrow> string" where
  "js_string (QStr s) = s"
| "js_string (QArr xs) = join_comma xs"
| "js_string QObj = ''[object Object]''"

fun truthy :: "qval option \<Rightarrow> bool" where
  "truthy None = False"
| "truthy (Some (QStr s)) = (s \<noteq> [])"
| "truthy (Some (QArr xs)) = True"
| "truthy (Some QObj) = True"

text \<open>
  \<open>parseInt(s, 10)\<close>: leading white space is skipped, a sign is read, and the longest run of
  decimal digits is the value, as a double; without a digit the result is \<open>NaN\<close>, here \<open>None\<close>.
\<close>

definition is_digit :: "char \<Rightarrow> bool" where
  "is_digit c = (CHR ''0'' \<le> c \<and> c \<le> CHR ''9'')"

definition digit_value :: "char \<Rightarrow> int" where
  "digit_value c = int (of_char c) - 48"

definition digits_value :: "string \<Rightarrow> int" where
  "digits_value ds = foldl (\<lambda>a c. 10 * a + digit_value c) 0 ds"

definition parseInt :: "string \<Rightarrow> number option" where
  "parseInt s =
    (let s1 = dropWhile is_space s;
         negative = (case s1 of c # cs \<Rightarrow> c = CHR ''-'' | [] \<Rightarrow> False);
         s2 = (case s1 of c # cs \<Rightarrow> if c = CHR ''-'' \<or> c = CHR ''+'' then cs else s1 | [] \<Rightarrow> s1);
         digits = takeWhile is_digit s2;
         n = digits_value digits
     in if digits = [] then None else Some (to_double (if negative then - n else n)))"

text \<open>\<open>Math.min(x, 100)\<close> on these numbers.\<close>

definition min_100 :: "number \<Rightarrow> number" where
  "min_100 x = (case x of Finite n \<Rightarrow> Finite (min n 100) | PosInfinity \<Rightarrow> Finite 100
                | NegInfinity \<Rightarrow> NegInfinity)"

text \<open>
  The three options both list handlers build from the query.
  \<open>if (status && typeof status === 'string') options.status = status\<close>:
\<close>

definition stringOption :: "qval option \<Rightarrow> string option" where
  "stringOption q = (case q of Some (QStr s) \<Rightarrow> if s \<noteq> [] then Some s else None | _ \<Rightarrow> None)"

text \<open>
  \<open>if (limit) options.limit = Math.min(parseInt(limit as string, 10) || 50, 100)\<close>; \<open>NaN\<close>
  and zero are the numbers that \<open>||\<close> replaces.
\<close>

definition limitOption :: "qval option \<Rightarrow> number option" where
  "limitOption limit =
    (case limit of
       None \<Rightarrow> None
     | Some q \<Rightarrow>
        if truthy (Some q) then
          Some (min_100 (case parseInt (js_string q) of
                           None \<Rightarrow> Finite 50
                         | Some n \<Rightarrow> if n = Finite 0 then Finite 50 else n))
        else None)"

text \<open>
  \<open>JSON.parse(Buffer.from(lastKey, 'base64').toString())\<close> inside \<open>try\<close>. The decoder is a
  parameter of the model: \<open>None\<close> when \<open>JSON.parse\<close> throws, and otherwise the parsed
  value, which the handler passes on as it is.
\<close>

definition lastKeyOption :: "(string \<Rightarrow> start_key option) \<Rightarrow> qval option \<Rightarrow> start_key option" where
  "lastKeyOption decode lastKey =
    (case lastKey of
       Some (QStr s) \<Rightarrow> if s \<noteq> [] then decode s else None
     | _ \<Rightarrow> None)"

section \<open>Projects controller\<close>

text \<open>
  \<open>POST /projects\<close>. The clock reading \<open>now\<close> and the identifier \<open>uuid\<close> that \<open>uuidv4()\<close>
  returns are inputs of the model. The body fields are JSON strings or absent.
\<close>

definition createProject ::
  "faults \<Rightarrow> string \<Rightarrow> string \<Rightarrow> string option \<Rightarrow> string option \<Rightarrow> string option \<Rightarrow> table
     \<Rightarrow> response \<times> table" where
  "createProject flt now uuid reqUserId name description t =
    (let userId = userIdOf reqUserId in
     case name of
       None \<Rightarrow> (sendError VALIDATION_ERROR ''Project name is required'' 400, t)
     | Some nm \<Rightarrow>
        if nm = [] \<or> length (trim nm) = 0
          then (sendError VALIDATION_ERROR ''Project name is required'' 400, t)
        else if length nm > 100
          then (sendError VALIDATION_ERROR ''Project name must be 100 characters or less'' 400, t)
        else
          (case DynamoDBService_createProject (flt CreateProject) now userId uuid
                  (trim nm) (map_option trim description) t of
             Inr (project, t') \<Rightarrow>
               (sendSuccess (Created uuid (trim nm) (map_option trim description) now) 201, t')
           | Inl e \<Rightarrow>
               if e = ConditionalCheckFailedException
                 then (sendError PROJECT_ALREADY_EXISTS ''Project already exists'' 409, t)
               else (sendError INTERNAL_ERROR ''Failed to create project'' 500, t)))"

text \<open>\<open>GET /projects\<close>.\<close>

definition listProjects ::
  "faults \<Rightarrow> (string \<Rightarrow> start_key option) \<Rightarrow> string option \<Rightarrow> qval option \<Rightarrow> qval option
     \<Rightarrow> qval option \<Rightarrow> table \<Rightarrow> response" where
  "listProjects flt decode reqUserId status limit lastKey t =
    (let userId = userIdOf reqUserId in
     case getProjectsByUser (flt GetProjectsByUser) userId
            (stringOption status) (limitOption limit) (lastKeyOption decode lastKey) t of
       Inr (projects, nextKey) \<Rightarrow> sendSuccess (Listing projects nextKey) 200
     | Inl e \<Rightarrow> sendError INTERNAL_ERROR ''Failed to list projects'' 500)"



section \<open>Files controller\<close>

text \<open>
  The confirm path passes \<open>fileMetadata.fileSize\<close> on as the size delta as it is. A stored
  number is the delta; with a string or nothing under \<open>fileSize\<close> the store has no number to
  add and rejects the update (\<open>None\<close> here).
\<close>

definition number_of :: "attr option \<Rightarrow> int option" where
  "number_of a = (case a of Some (N n) \<Rightarrow> Some n | _ \<Rightarrow> None)"

text \<open>
  The delete paths pass \<open>-fileMetadata.fileSize\<close>. The unary minus converts its operand to a
  number first, so a stored string is read as a numeric literal: white space around it is
  dropped, the empty string is 0, a literal with a prefix \<open>0x\<close>, \<open>0o\<close> or \<open>0b\<close> is read in
  that radix, and a decimal literal has an optional sign, digits with an optional fraction,
  and an optional exponent. \<open>None\<close> stands for \<open>NaN\<close> and the infinities, which the document
  client refuses to marshal, and for a literal whose value is a fraction, which is outside
  the model's integers.
\<close>

definition digit_of :: "char \<Rightarrow> nat option" where
  "digit_of c =
    (if is_digit c then Some (of_char c - 48)
     else if CHR ''a'' \<le> c \<and> c \<le> CHR ''f'' then Some (of_char c - 87)
     else if CHR ''A'' \<le> c \<and> c \<le> CHR ''F'' then Some (of_char c - 55)
     else None)"

definition radix_digit :: "nat \<Rightarrow> char \<Rightarrow> bool" where
  "radix_digit r c = (case digit_of c of Some d \<Rightarrow> d < r | None \<Rightarrow> False)"

definition radix_value :: "nat \<Rightarrow> string \<Rightarrow> int option" where
  "radix_value r ds =
    (if ds \<noteq> [] \<and> list_all (radix_digit r) ds
       then Some (foldl (\<lambda>a c. int r * a + (case digit_of c of Some d \<Rightarrow> int d | None \<Rightarrow> 0)) 0 ds)
     else None)"

definition radix_of :: "string \<Rightarrow> nat option" where
  "radix_of t =
    (case t of
       c # d # ds \<Rightarrow>
         if c \<noteq> CHR ''0'' then None
         else if d = CHR ''x'' \<or> d = CHR ''X'' then Some 16
         else if d = CHR ''o'' \<or> d = CHR ''O'' then Some 8
         else if d = CHR ''b'' \<or> d = CHR ''B'' then Some 2
         else None
     | _ \<Rightarrow> None)"

definition exponent_part :: "string \<Rightarrow> int option" where
  "exponent_part s =
    (case s of
       [] \<Rightarrow> Some 0
     | c # cs \<Rightarrow>
        if c = CHR ''e'' \<or> c = CHR ''E'' then
          (let negative = (case cs of d # ds \<Rightarrow> d = CHR ''-'' | [] \<Rightarrow> False);
               digits = (case cs of d # ds \<Rightarrow> if d = CHR ''-'' \<or> d = CHR ''+'' then ds else cs
                         | [] \<Rightarrow> cs)
           in if digits \<noteq> [] \<and> list_all is_digit digits
                then Some (if negative then - digits_value digits else digits_value digits)
              else None)
        else None)"

definition decimal_value :: "string \<Rightarrow> int option" where
  "decimal_value s =
    (let whole = takeWhile is_digit s;
         r1 = dropWhile is_digit s;
         fraction = (case r1 of c # cs \<Rightarrow> if c = CHR ''.'' then takeWhile is_digit cs else []
                     | [] \<Rightarrow> []);
         r2 = (case r1 of c # cs \<Rightarrow> if c = CHR ''.'' then dropWhile is_digit cs else r1
               | [] \<Rightarrow> [])
     in if whole = [] \<and> fraction = [] then None
        else
          (case exponent_part r2 of
             None \<Rightarrow> None
           | Some e \<Rightarrow>
              (let m = digits_value (whole @ fraction);
                   scale = e - int (length fraction)
               in if 0 \<le> scale then Some (m * 10 ^ nat scale)
                  else if m mod 10 ^ nat (- scale) = 0 then Some (m div 10 ^ nat (- scale))
                  else None)))"

definition to_number :: "string \<Rightarrow> int option" where
  "to_number s =
    (let t = trim s in
     if t = [] then Some 0
     else
       (case radix_of t of
          Some r \<Rightarrow> radix_value r (drop 2 t)
        | None \<Rightarrow>
           (case t of
              c # cs \<Rightarrow>
                if c = CHR ''-'' then map_option uminus (decimal_value cs)
                else if c = CHR ''+'' then decimal_value cs
                else decimal_value t
            | [] \<Rightarrow> None)))"

definition finite_of :: "number \<Rightarrow> int option" where
  "finite_of x = (case x of Finite n \<Rightarrow> Some n | _ \<Rightarrow> None)"

definition negated :: "attr option \<Rightarrow> int option" where
  "negated a =
    (case a of
       Some (N n) \<Rightarrow> Some (- n)
     | Some (S s) \<Rightarrow>
        (case to_number s of
           Some v \<Rightarrow> map_option uminus (finite_of (to_double v))
         | None \<Rightarrow> None)
     | None \<Rightarrow> None)"

text \<open>
  The counter adjustment with its \<open>.catch(() => {})\<close>: a rejected update leaves the table as it
  is and nothing is thrown.
\<close>

definition updateProjectStats_caught ::
  "aws_error option \<Rightarrow> string \<Rightarrow> string \<Rightarrow> string \<Rightarrow> int \<Rightarrow> int option \<Rightarrow> table \<Rightarrow> table" where
  "updateProjectStats_caught fault now userId projectId fileCountDelta sizeDelta t =
    (case updateProjectStats fault now userId projectId fileCountDelta sizeDelta t of
       Inl e \<Rightarrow> t
     | Inr t' \<Rightarrow> t')"

text \<open>\<open>POST /projects/:projectId/files/:fileId/confirm\<close>.\<close>

definition confirmUpload ::
  "faults \<Rightarrow> string \<Rightarrow> string option \<Rightarrow> string \<Rightarrow> string \<Rightarrow> world \<Rightarrow> response \<times> world" where
  "confirmUpload flt now reqUserId projectId fileId w =
    (let userId = userIdOf reqUserId;
         failed = sendError INTERNAL_ERROR ''Failed to confirm upload'' 500 in
     case getFileById (flt GetFileById) projectId fileId (tbl w) of
       Inl e \<Rightarrow> (failed, w)
     | Inr None \<Rightarrow> (sendError FILE_NOT_FOUND ''File not found'' 404, w)
     | Inr (Some fileMetadata) \<Rightarrow>
        (case objectExists (flt ObjectExists) (fileMetadata ''s3Key'') (s3 w) of
           Inl e \<Rightarrow> (failed, w)
         | Inr exists \<Rightarrow>
            if \<not> exists
              then (sendError VALIDATION_ERROR ''File has not been uploaded to storage'' 400, w)
            else
              (case updateFileStatus (flt UpdateFileStatus) projectId fileId ''uploaded'' (tbl w) of
                 Inl e \<Rightarrow> (failed, w)
               | Inr (updatedFile, t1) \<Rightarrow>
                  (let t2 = updateProjectStats_caught (flt UpdateProjectStats) now userId projectId
                              1 (number_of (fileMetadata ''fileSize'')) t1
                   in (sendSuccess (Row updatedFile) 200, w\<lparr>tbl := t2\<rparr>)))))"

text \<open>\<open>GET /projects/:projectId/files/:fileId\<close>.\<close>

definition getDownloadUrl :: "faults \<Rightarrow> string \<Rightarrow> string \<Rightarrow> world \<Rightarrow> response" where
  "getDownloadUrl flt projectId fileId w =
    (let failed = sendError INTERNAL_ERROR ''Failed to generate download URL'' 500 in
     case getFileById (flt GetFileById) projectId fileId (tbl w) of
       Inl e \<Rightarrow> failed
     | Inr None \<Rightarrow> sendError FILE_NOT_FOUND ''File not found'' 404
     | Inr (Some fileMetadata) \<Rightarrow>
        if fileMetadata ''status'' = Some (S ''deleted'')
          then sendError FILE_NOT_FOUND ''File has been deleted'' 404
        else
          (case generateDownloadUrl (flt GenerateDownloadUrl) (fileMetadata ''s3Key'') of
             Inl e \<Rightarrow> failed
           | Inr downloadUrl \<Rightarrow>
               sendSuccess (Download (fileMetadata ''fileId'') (fileMetadata ''fileName'')
                              downloadUrl) 200))"

text \<open>\<open>GET /projects/:projectId/files/:fileId/metadata\<close>.\<close>

definition getFileMetadata :: "faults \<Rightarrow> string \<Rightarrow> string \<Rightarrow> world \<Rightarrow> response" where
  "getFileMetadata flt projectId fileId w =
    (case getFileById (flt GetFileById) projectId fileId (tbl w) of
       Inl e \<Rightarrow> sendError INTERNAL_ERROR ''Failed to get file metadata'' 500
     | Inr None \<Rightarrow> sendError FILE_NOT_FOUND ''File not found'' 404
     | Inr (Some fileMetadata) \<Rightarrow>
        if fileMetadata ''status'' = Some (S ''deleted'')
          then sendError FILE_NOT_FOUND ''File has been deleted'' 404
        else sendSuccess (Row (Some fileMetadata)) 200)"

text \<open>\<open>GET /projects/:projectId/files\<close>.\<close>

definition listFiles ::
  "faults \<Rightarrow> (string \<Rightarrow> start_key option) \<Rightarrow> string \<Rightarrow> qval option \<Rightarrow> qval option
     \<Rightarrow> qval option \<Rightarrow> qval option \<Rightarrow> table \<Rightarrow> response" where
  "listFiles flt decode projectId fileType status limit lastKey t =
    (case getFilesByProject (flt GetFilesByProject) projectId
            (stringOption fileType) (stringOption status) (limitOption limit)
            (lastKeyOption decode lastKey) t of
       Inr (files, nextKey) \<Rightarrow> sendSuccess (Listing files nextKey) 200
     | Inl e \<Rightarrow> sendError INTERNAL_ERROR ''Failed to list files'' 500)"

text \<open>
  \<open>DELETE /projects/:projectId/files/:fileId\<close>, with \<open>hardDelete = req.query.hard === 'true'\<close>.
  An effect that happened before a later call failed stays in the world.
\<close>

definition deleteFile ::
  "faults \<Rightarrow> string \<Rightarrow> string option \<Rightarrow> string \<Rightarrow> string \<Rightarrow> qval option \<Rightarrow> world \<Rightarrow> response \<times> world" where
  "deleteFile flt now reqUserId projectId fileId hard w =
    (let userId = userIdOf reqUserId;
         hardDelete = (hard = Some (QStr ''true''));
         failed = sendError INTERNAL_ERROR ''Failed to delete file'' 500 in
     case getFileById (flt GetFileById) projectId fileId (tbl w) of
       Inl e \<Rightarrow> (failed, w)
     | Inr None \<Rightarrow> (sendError FILE_NOT_FOUND ''File not found'' 404, w)
     | Inr (Some fileMetadata) \<Rightarrow>
        if fileMetadata ''status'' = Some (S ''deleted'') \<and> \<not> hardDelete
          then (sendError FILE_NOT_FOUND ''File already deleted'' 404, w)
        else if hardDelete then
          (case deleteObject (flt DeleteObject) (fileMetadata ''s3Key'') (s3 w) of
             Inl e \<Rightarrow> (failed, w)
           | Inr b1 \<Rightarrow>
              (case hardDeleteFile (flt HardDeleteFile) projectId fileId (tbl w) of
                 Inl e \<Rightarrow> (failed, w\<lparr>s3 := b1\<rparr>)
               | Inr t1 \<Rightarrow>
                  (let t2 = updateProjectStats_caught (flt UpdateProjectStats) now userId projectId
                              (- 1) (negated (fileMetadata ''fileSize'')) t1
                   in (sendSuccess (Message ''File permanently deleted'') 200,
                       w\<lparr>tbl := t2, s3 := b1\<rparr>))))
        else
          (case DynamoDBService_deleteFile (flt UpdateFileStatus) projectId fileId (tbl w) of
             Inl e \<Rightarrow> (failed, w)
           | Inr (deleted, t1) \<Rightarrow>
              (let t2 = updateProjectStats_caught (flt UpdateProjectStats) now userId projectId
                          (- 1) (negated (fileMetadata ''fileSize'')) t1
               in (sendSuccess (Message ''File deleted'') 200, w\<lparr>tbl := t2\<rparr>))))"

section \<open>Example rows\<close>

text \<open>
  A project row and a file row as \<open>createProject\<close> and \<open>createFileMetadata\<close> write them; the
  theorems below are exercised on worlds built from them.
\<close>

definition example_project :: item where
  "example_project = project_item ''2024-05-01T10:00:00.000Z'' ''alice'' ''p-1'' ''Site plans'' None"

definition example_file :: item where
  "example_file = file_item ''2024-05-01T10:05:00.000Z''
     \<lparr>m_fileId = ''f-1'', m_projectId = ''p-1'', m_fileName = ''plan.pdf'',
      m_fileType = ''application/pdf'', m_fileExtension = ''.pdf'', m_fileSize = 2048,
      m_s3Key = ''p-1/f-1/plan.pdf'', m_uploadedBy = ''alice''\<rparr>"

text \<open>
  The decoder on three cursors: the base64 of \<open>{"PK":"USER#alice","SK":"PROJECT#p-1"}\<close>, of
  \<open>{"PK":"USER#bob","SK":"PROJECT#p-1"}\<close> and of \<open>123\<close>; every other string stands for
  text that \<open>JSON.parse\<close> refuses.
\<close>

definition example_decode :: "string \<Rightarrow> start_key option" where
  "example_decode s =
    (if s = ''eyJQSyI6IlVTRVIjYWxpY2UiLCJTSyI6IlBST0pFQ1QjcC0xIn0=''
       then Some (KeyObject (''USER#alice'', ''PROJECT#p-1''))
     else if s = ''eyJQSyI6IlVTRVIjYm9iIiwiU0siOiJQUk9KRUNUI3AtMSJ9''
       then Some (KeyObject (''USER#bob'', ''PROJECT#p-1''))
     else if s = ''MTIz'' then Some OtherValue
     else None)"

section \<open>Facts about the store and the services\<close>

lemma key_of_project_item:
  "key_of (project_item now u p n d) = Some (project_key u p)"
  by (cases d) (simp_all add: key_of_def project_item_def project_key_def)

lemma project_item_fresh:
  "project_item now u p n d ''status'' = Some (S ''active'')"
  "project_item now u p n d ''fileCount'' = Some (N 0)"
  "project_item now u p n d ''totalSize'' = Some (N 0)"
  by (cases d; simp add: project_item_def)+

lemma createProject_service_success:
  assumes "DynamoDBService_createProject f now u p n d t = Inr (it, t')"
  shows "it = project_item now u p n d \<and> t' = AList.update (project_key u p) it t
         \<and> map_of t (project_key u p) = None"
  using assms
  by (auto simp: DynamoDBService_createProject_def PutCommand_if_absent_def Let_def
        key_of_project_item split: option.splits sum.splits)

lemma createProject_service_conflict:
  assumes "map_of t (project_key u p) = Some r"
  shows "DynamoDBService_createProject None now u p n d t = Inl ConditionalCheckFailedException"
  using assms
  by (simp add: DynamoDBService_createProject_def PutCommand_if_absent_def Let_def
        key_of_project_item)



lemma file_key_neq_project_key: "file_key p f \<noteq> project_key u p'"
  by (simp add: file_key_def project_key_def)

lemma updateFileStatus_existing:
  assumes "map_of t (file_key p f) = Some row"
  shows "updateFileStatus None p f st t =
           Inr (Some (row(''status'' \<mapsto> S st)),
                AList.update (file_key p f) (row(''status'' \<mapsto> S st)) t)"
  using assms by (simp add: updateFileStatus_def UpdateCommand_def apply_actions_def)

lemma stats_caught_other_rows:
  assumes "k \<noteq> project_key u p"
  shows "map_of (updateProjectStats_caught fault now u p dc ds t) k = map_of t k"
  using assms
  by (auto simp: updateProjectStats_caught_def updateProjectStats_def UpdateCommand_def Let_def
        update_conv' split: option.splits sum.splits)

lemma stats_caught_counts:
  assumes "map_of t (project_key u p) = Some prow"
    and "prow ''fileCount'' = Some (N c)" and "prow ''totalSize'' = Some (N s)"
  shows "updateProjectStats_caught None now u p dc (Some ds) t =
           AList.update (project_key u p)
             (prow(''fileCount'' \<mapsto> N (c + dc), ''totalSize'' \<mapsto> N (s + ds),
                   ''updatedAt'' \<mapsto> S now)) t"
  using assms
  by (simp add: updateProjectStats_caught_def updateProjectStats_def UpdateCommand_def
        apply_actions_def)

lemma objectExists_present:
  "k \<in> b \<Longrightarrow> objectExists None (Some (S k)) b = Inr True"
  by (simp add: objectExists_def HeadObjectCommand_def)

lemma objectExists_absent:
  "k \<notin> b \<Longrightarrow> objectExists None (Some (S k)) b = Inr False"
  by (simp add: objectExists_def HeadObjectCommand_def)

lemma getFileById_ok: "getFileById None p f t = Inr (map_of t (file_key p f))"
  by (simp add: getFileById_def GetCommand_def)

lemma confirm_step:
  assumes row: "map_of (tbl w) (file_key projectId fileId) = Some row"
    and key: "row ''s3Key'' = Some (S k)"
    and present: "k \<in> s3 w"
    and store: "flt GetFileById = None" "flt ObjectExists = None" "flt UpdateFileStatus = None"
  shows "confirmUpload flt now reqUserId projectId fileId w =
           (Response 200 (Ok (Row (Some (row(''status'' \<mapsto> S ''uploaded''))))),
            w\<lparr>tbl := updateProjectStats_caught (flt UpdateProjectStats) now (userIdOf reqUserId)
                        projectId 1 (number_of (row ''fileSize''))
                        (AList.update (file_key projectId fileId)
                           (row(''status'' \<mapsto> S ''uploaded'')) (tbl w))\<rparr>)"
  using assms
  by (simp add: confirmUpload_def getFileById_ok objectExists_present
        updateFileStatus_existing sendSuccess_def)

lemma deleteFile_soft_step:
  assumes row: "map_of (tbl w) (file_key projectId fileId) = Some row"
    and soft: "hard \<noteq> Some (QStr ''true'')"
    and live: "row ''status'' \<noteq> Some (S ''deleted'')"
    and store: "flt GetFileById = None" "flt UpdateFileStatus = None"
  shows "deleteFile flt now reqUserId projectId fileId hard w =
           (Response 200 (Ok (Message ''File deleted'')),
            w\<lparr>tbl := updateProjectStats_caught (flt UpdateProjectStats) now (userIdOf reqUserId)
                        projectId (- 1) (negated (row ''fileSize''))
                        (AList.update (file_key projectId fileId)
                           (row(''status'' \<mapsto> S ''deleted'')) (tbl w))\<rparr>)"
  using assms
  by (simp add: deleteFile_def getFileById_ok DynamoDBService_deleteFile_def
        updateFileStatus_existing sendSuccess_def)

lemma deleteFile_soft_already:
  assumes row: "map_of (tbl w) (file_key projectId fileId) = Some row"
    and soft: "hard \<noteq> Some (QStr ''true'')"
    and gone: "row ''status'' = Some (S ''deleted'')"
    and store: "flt GetFileById = None"
  shows "deleteFile flt now reqUserId projectId fileId hard w =
           (Response 404 (Err FILE_NOT_FOUND ''File already deleted''), w)"
  using assms
  by (simp add: deleteFile_def getFileById_ok sendError_def)

lemma deleteFile_hard_step:
  assumes row: "map_of (tbl w) (file_key projectId fileId) = Some row"
    and key: "row ''s3Key'' = Some (S k)"
    and store: "flt GetFileById = None" "flt DeleteObject = None" "flt HardDeleteFile = None"
  shows "deleteFile flt now reqUserId projectId fileId (Some (QStr ''true'')) w =
           (Response 200 (Ok (Message ''File permanently deleted'')),
            w\<lparr>tbl := updateProjectStats_caught (flt UpdateProjectStats) now (userIdOf reqUserId)
                        projectId (- 1) (negated (row ''fileSize''))
                        (AList.delete (file_key projectId fileId) (tbl w)),
              s3 := s3 w - {k}\<rparr>)"
  using assms
  by (simp add: deleteFile_def getFileById_ok deleteObject_def DeleteObjectCommand_def
        hardDeleteFile_def DeleteCommand_def sendSuccess_def)

lemma fetch_deleted_row:
  assumes "map_of (tbl w) (file_key projectId fileId) = Some row"
    and "row ''status'' = Some (S ''deleted'')"
    and "flt GetFileById = None"
  shows "getDownloadUrl flt projectId fileId w =
           Response 404 (Err FILE_NOT_FOUND ''File has been deleted'')"
    and "getFileMetadata flt projectId fileId w =
           Response 404 (Err FILE_NOT_FOUND ''File has been deleted'')"
  using assms
  by (simp_all add: getDownloadUrl_def getFileMetadata_def getFileById_ok sendError_def)

lemma QueryCommand_rows_pass_filter:
  assumes "QueryCommand fault pk skPrefix filterExpression limit startKey t = Inr (rows, nextKey)"
  shows "list_all filterExpression rows"
  using assms
  by (auto simp: QueryCommand_def Let_def list_all_iff split: option.splits if_splits)

lemma default_status_filter:
  "given status = None \<Longrightarrow> status_filter status it \<Longrightarrow> it ''status'' \<noteq> Some (S ''deleted'')"
  by (simp add: status_filter_def)

lemma char_le_iff: "(c \<le> d) = (of_char c \<le> (of_char d :: nat))"
  by (simp add: less_eq_char_def)

lemma lower_char_not_capital: "\<not> is_capital (lower_char c)"
  by (auto simp: lower_char_def is_capital_def char_le_iff)

lemma lower_char_slash: "lower_char c = CHR ''/'' \<Longrightarrow> c = CHR ''/''"
proof (cases "is_capital c")
  case True
  assume "lower_char c = CHR ''/''"
  then have "char_of (of_char c + (32::nat)) = CHR ''/''"
    using True by (simp add: lower_char_def)
  then have "(of_char (char_of (of_char c + (32::nat))) :: nat) = of_char (CHR ''/'')"
    by simp
  with True show ?thesis
    by (auto simp: is_capital_def char_le_iff)
next
  case False
  assume "lower_char c = CHR ''/''"
  with False show ?thesis by (simp add: lower_char_def)
qed

lemma basename_no_slash: "CHR ''/'' \<notin> set (basename p)"
proof
  assume "CHR ''/'' \<in> set (basename p)"
  then have "CHR ''/'' \<in> set (takeWhile (\<lambda>c. c \<noteq> CHR ''/'') (dropWhile (\<lambda>c. c = CHR ''/'') (rev p)))"
    by (simp add: basename_def)
  then show False
    by (auto dest: set_takeWhileD)
qed

lemma basename_fixed: "CHR ''/'' \<notin> set p \<Longrightarrow> basename p = p"
proof -
  assume a: "CHR ''/'' \<notin> set p"
  then have "dropWhile (\<lambda>c. c = CHR ''/'') (rev p) = rev p"
    by (cases "rev p") (auto simp: in_set_conv_decomp)
  moreover have "takeWhile (\<lambda>c. c \<noteq> CHR ''/'') (rev p) = rev p"
    using a by (intro takeWhile_eq_all_conv[THEN iffD2]) auto
  ultimately have "rev (takeWhile (\<lambda>c. c \<noteq> CHR ''/'') (dropWhile (\<lambda>c. c = CHR ''/'') (rev p)))
                   = rev (rev p)"
    by (simp only:)
  then show ?thesis
    by (simp add: basename_def)
qed

lemma basename_idem: "basename (basename p) = basename p"
  by (rule basename_fixed[OF basename_no_slash])

lemma extname_basename: "extname (basename p) = extname p"
  by (simp add: extname_def basename_idem)

lemma extname_subset: "set (extname p) \<subseteq> set (basename p)"
proof -
  have "set (rev (takeWhile (\<lambda>c. c \<noteq> CHR ''.'') (rev (basename p)))) \<subseteq> set (basename p)"
    using set_takeWhileD[of _ "\<lambda>c. c \<noteq> CHR ''.''" "rev (basename p)"] by auto
  then show ?thesis
    by (auto simp: extname_def Let_def)
qed

lemma extname_no_slash: "CHR ''/'' \<notin> set (extname p)"
  using extname_subset[of p] basename_no_slash[of p] by auto

lemma collapse_underscores_subset: "set (collapse_underscores s) \<subseteq> set s"
  by (induction s rule: collapse_underscores.induct) auto

lemma replace_unsafe_safe: "list_all is_safe_char (replace_unsafe s)"
  by (auto simp: replace_unsafe_def list_all_iff is_safe_char_def)

lemma sanitized_stem_safe:
  "list_all is_safe_char (take n (collapse_underscores (replace_unsafe s)))"
  using replace_unsafe_safe[of s] collapse_underscores_subset[of "replace_unsafe s"]
  by (auto simp: list_all_iff dest!: in_set_takeD)

lemma generateS3Key_name_safe:
  "generateS3Key projectId fileId fileName = projectId @ ''/'' @ fileId @ ''/'' @ replace_unsafe fileName
   \<and> list_all is_safe_char (replace_unsafe fileName)"
  by (simp add: generateS3Key_def replace_unsafe_safe)

lemma bit_length_bound: "n < 2 ^ k \<Longrightarrow> bit_length n \<le> k"
proof (induction k arbitrary: n)
  case 0
  then show ?case by (simp add: bit_length.simps)
next
  case (Suc k)
  show ?case
  proof (cases "n \<le> 0")
    case True
    then show ?thesis by (simp add: bit_length.simps)
  next
    case False
    from Suc.prems have "n div 2 < 2 ^ k"
      by simp
    then have "bit_length (n div 2) \<le> k"
      by (rule Suc.IH)
    with False show ?thesis
      by (simp add: bit_length.simps[of n])
  qed
qed

lemma to_double_exact:
  assumes "\<bar>v\<bar> < 2 ^ 53"
  shows "to_double v = Finite v"
proof -
  have small: "bit_length \<bar>v\<bar> \<le> 53"
    using assms by (rule bit_length_bound)
  then have "round_to_53_bits \<bar>v\<bar> = \<bar>v\<bar>"
    by (simp add: round_to_53_bits_def)
  then show ?thesis
    using small by (simp add: to_double_def Let_def)
qed

lemma parseInt_rounds:
  "parseInt ''-9007199254740993'' = Some (Finite (- 9007199254740992))"
  by code_simp

lemma split_at_last:
  assumes "x \<in> set b"
  shows "b = take (length b - length (takeWhile (\<lambda>c. c \<noteq> x) (rev b)) - 1) b
             @ x # rev (takeWhile (\<lambda>c. c \<noteq> x) (rev b))"
proof -
  define tw where "tw = takeWhile (\<lambda>c. c \<noteq> x) (rev b)"
  define dw where "dw = dropWhile (\<lambda>c. c \<noteq> x) (rev b)"
  have "dw \<noteq> []"
    using assms by (simp add: dw_def dropWhile_eq_Nil_conv)
  moreover have "hd dw = x"
    using \<open>dw \<noteq> []\<close> hd_dropWhile[of "\<lambda>c. c \<noteq> x" "rev b"] by (simp add: dw_def)
  ultimately obtain rest where dw: "dw = x # rest"
    by (cases dw) auto
  have "tw @ dw = rev b"
    by (simp add: tw_def dw_def)
  then have "rev (tw @ dw) = b"
    by simp
  then have b: "b = rev rest @ x # rev tw"
    by (simp add: dw)
  have "take (length (rev rest @ x # rev tw) - length tw - 1) (rev rest @ x # rev tw) = rev rest"
    by simp
  then have "take (length b - length tw - 1) b = rev rest"
    by (simp only: b[symmetric])
  then have "take (length b - length tw - 1) b @ x # rev tw = b"
    using b by (simp only:)
  then show ?thesis
    by (simp only: tw_def)
qed

lemma name_and_extension:
  assumes "CHR ''/'' \<notin> set b"
  shows "basename_suffix b (extname b) @ extname b = b"
proof (cases "extname b = []")
  case True
  then show ?thesis
    using assms by (simp add: basename_suffix_def basename_fixed)
next
  case False
  define e where "e = extname b"
  define suffix where "suffix = rev (takeWhile (\<lambda>c. c \<noteq> CHR ''.'') (rev b))"
  define stem where "stem = take (length b - length suffix - 1) b"
  have bb: "basename b = b"
    using assms by (rule basename_fixed)
  from False have dot: "CHR ''.'' \<in> set b" and stem: "stem \<noteq> []"
    and ext: "e = CHR ''.'' # suffix"
    by (auto simp: extname_def bb Let_def e_def suffix_def stem_def split: if_splits)
  have b: "b = stem @ e"
    using split_at_last[OF dot] by (simp add: ext stem_def suffix_def)
  have "length e < length (stem @ e)" "drop (length (stem @ e) - length e) (stem @ e) = e"
    "take (length (stem @ e) - length e) (stem @ e) = stem"
    using stem by simp_all
  then have len: "length e < length b"
    and drop: "drop (length b - length e) b = e"
    and take: "take (length b - length e) b = stem"
    by (simp_all only: b[symmetric])
  have ne: "e \<noteq> b" "e \<noteq> []"
    using len ext by auto
  have "basename_suffix b e = stem"
    using len drop take ne by (simp add: basename_suffix_def bb Let_def)
  then have "basename_suffix b e @ e = stem @ e"
    by (simp only:)
  then have "basename_suffix b e @ e = b"
    by (simp only: b[symmetric])
  then show ?thesis
    by (simp only: e_def)
qed

lemma replace_unsafe_keeps:
  "length (replace_unsafe s) = length s"
  "i < length s \<Longrightarrow> is_safe_char (s ! i) \<Longrightarrow> replace_unsafe s ! i = s ! i"
  by (simp_all add: replace_unsafe_def)

lemma toLowerCase_safe:
  assumes "list_all is_safe_char s"
  shows "list_all is_safe_char (toLowerCase s)"
proof -
  have "is_safe_char (lower_char c)" if "is_safe_char c" for c
  proof (cases "CHR ''A'' \<le> c \<and> c \<le> CHR ''Z''")
    case True
    then have cap: "is_capital c"
      by (simp add: is_capital_def)
    have "(of_char (lower_char c) :: nat) = of_char c + 32"
      using True cap by (simp add: lower_char_def char_le_iff)
    then show ?thesis
      using True by (simp add: is_safe_char_def char_le_iff)
  next
    case False
    with that have "\<not> is_capital c"
      by (auto simp: is_capital_def is_safe_char_def char_le_iff)
    then show ?thesis
      using that by (simp add: lower_char_def)
  qed
  then show ?thesis
    using assms by (auto simp: toLowerCase_def list_all_iff)
qed

lemma QueryCommand_rejects_start:
  assumes "\<not> valid_start pk skPrefix startKey"
  shows "\<exists>e. QueryCommand fault pk skPrefix filterExpression limit startKey t = Inl e"
  using assms by (cases fault) (simp_all add: QueryCommand_def)


lemma stats_caught_missing_row:
  assumes "map_of t (project_key u p) = None"
  shows "updateProjectStats_caught fault now u p dc ds t = t"
  using assms
  by (cases fault; cases ds)
     (simp_all add: updateProjectStats_caught_def updateProjectStats_def UpdateCommand_def
        apply_actions_def)

lemma confirm_adds_to_counters:
  assumes row: "map_of (tbl w) (file_key projectId fileId) = Some row"
    and key: "row ''s3Key'' = Some (S k)"
    and present: "k \<in> s3 w"
    and size: "row ''fileSize'' = Some (N sz)"
    and project: "map_of (tbl w) (project_key (userIdOf reqUserId) projectId) = Some prow"
    and counters: "prow ''fileCount'' = Some (N c)" "prow ''totalSize'' = Some (N s)"
    and store: "flt GetFileById = None" "flt ObjectExists = None" "flt UpdateFileStatus = None"
      "flt UpdateProjectStats = None"
  shows "\<exists>w' prow'.
           confirmUpload flt now reqUserId projectId fileId w
             = (Response 200 (Ok (Row (Some (row(''status'' \<mapsto> S ''uploaded''))))), w')
         \<and> map_of (tbl w') (file_key projectId fileId) = Some (row(''status'' \<mapsto> S ''uploaded''))
         \<and> map_of (tbl w') (project_key (userIdOf reqUserId) projectId) = Some prow'
         \<and> prow' ''fileCount'' = Some (N (c + 1))
         \<and> prow' ''totalSize'' = Some (N (s + sz))
         \<and> s3 w' = s3 w"
proof -
  let ?fk = "file_key projectId fileId"
  let ?pk = "project_key (userIdOf reqUserId) projectId"
  let ?t1 = "AList.update ?fk (row(''status'' \<mapsto> S ''uploaded'')) (tbl w)"
  have differ: "?fk \<noteq> ?pk"
    by (rule file_key_neq_project_key)
  have p1: "map_of ?t1 ?pk = Some prow"
    using project differ by (simp add: update_conv')
  have step: "confirmUpload flt now reqUserId projectId fileId w =
         (Response 200 (Ok (Row (Some (row(''status'' \<mapsto> S ''uploaded''))))),
          w\<lparr>tbl := updateProjectStats_caught (flt UpdateProjectStats) now (userIdOf reqUserId)
                      projectId 1 (number_of (row ''fileSize'')) ?t1\<rparr>)"
    using row key present store by (intro confirm_step[where k = k]) simp_all
  have stats: "updateProjectStats_caught (flt UpdateProjectStats) now (userIdOf reqUserId)
                 projectId 1 (number_of (row ''fileSize'')) ?t1
               = AList.update ?pk (prow(''fileCount'' \<mapsto> N (c + 1), ''totalSize'' \<mapsto> N (s + sz),
                                     ''updatedAt'' \<mapsto> S now)) ?t1"
    using stats_caught_counts[where prow = prow, OF p1 counters] store(4) size
    by (simp add: number_of_def)
  show ?thesis
    unfolding step stats using differ by (simp add: update_conv')
qed

section \<open>Verified properties\<close>

text \<open>
  C1. Once \<open>createProject\<close> has succeeded for an owner and a project identifier, a second
  \<open>createProject\<close> with the same identity (and a name that passes validation, the store
  answering) is answered with 409 \<open>PROJECT_ALREADY_EXISTS\<close>, because the store refuses the
  conditional write, and the table is left exactly as the first call left it. The row the
  first call wrote is new and has status \<open>active\<close>, \<open>fileCount\<close> 0 and \<open>totalSize\<close> 0.
\<close>

theorem createProject_twice_conflict:
  assumes first: "createProject flt now uuid reqUserId name descr t = (Response 201 (Ok p), t')"
    and valid: "trim nm' \<noteq> []" "length nm' \<le> 100"
    and store: "flt' CreateProject = None"
  shows "createProject flt' now' uuid reqUserId (Some nm') descr' t'
           = (Response 409 (Err PROJECT_ALREADY_EXISTS ''Project already exists''), t')
       \<and> DynamoDBService_createProject None now' (userIdOf reqUserId) uuid n' d' t'
           = Inl ConditionalCheckFailedException
       \<and> (\<exists>row. map_of t' (project_key (userIdOf reqUserId) uuid) = Some row
             \<and> map_of t (project_key (userIdOf reqUserId) uuid) = None
             \<and> row ''status'' = Some (S ''active'')
             \<and> row ''fileCount'' = Some (N 0)
             \<and> row ''totalSize'' = Some (N 0))"
proof -
  let ?k = "project_key (userIdOf reqUserId) uuid"
  from first obtain nm it where
    svc: "DynamoDBService_createProject (flt CreateProject) now (userIdOf reqUserId) uuid
            (trim nm) (map_option trim descr) t = Inr (it, t')"
    by (auto simp: createProject_def Let_def sendError_def sendSuccess_def
          split: option.splits if_splits sum.splits)
  from createProject_service_success[OF svc]
  have it: "it = project_item now (userIdOf reqUserId) uuid (trim nm) (map_option trim descr)"
    and t': "t' = AList.update ?k it t" and fresh: "map_of t ?k = None"
    by simp_all
  have row: "map_of t' ?k = Some it"
    by (simp add: t' update_conv')
  have nm': "nm' \<noteq> []"
    using valid(1) by (auto simp: trim_def)
  have second: "DynamoDBService_createProject None now' (userIdOf reqUserId) uuid n d t'
                  = Inl ConditionalCheckFailedException" for n d
    by (rule createProject_service_conflict[OF row])
  have "createProject flt' now' uuid reqUserId (Some nm') descr' t'
           = (Response 409 (Err PROJECT_ALREADY_EXISTS ''Project already exists''), t')"
    using valid nm' by (simp add: createProject_def store second sendError_def)
  moreover have "it ''status'' = Some (S ''active'') \<and> it ''fileCount'' = Some (N 0)
      \<and> it ''totalSize'' = Some (N 0)"
    by (simp add: it project_item_fresh)
  ultimately show ?thesis
    using second row fresh by blast
qed

theorem createProject_twice_conflict_witness:
  "createProject no_faults ''2024-05-01T10:00:00.000Z'' ''p-1'' (Some ''alice'')
       (Some ''Site plans'') None []
     = (Response 201 (Ok (Created ''p-1'' ''Site plans'' None ''2024-05-01T10:00:00.000Z'')),
        [(project_key ''alice'' ''p-1'',
          project_item ''2024-05-01T10:00:00.000Z'' ''alice'' ''p-1'' ''Site plans'' None)])
   \<and> trim ''Other name'' \<noteq> [] \<and> length ''Other name'' \<le> 100
   \<and> no_faults CreateProject = None
   \<and> createProject no_faults ''2024-05-02T10:00:00.000Z'' ''p-1'' (Some ''alice'')
        (Some ''Other name'') (Some ''again'')
        [(project_key ''alice'' ''p-1'',
          project_item ''2024-05-01T10:00:00.000Z'' ''alice'' ''p-1'' ''Site plans'' None)]
     = (Response 409 (Err PROJECT_ALREADY_EXISTS ''Project already exists''),
        [(project_key ''alice'' ''p-1'',
          project_item ''2024-05-01T10:00:00.000Z'' ''alice'' ''p-1'' ''Site plans'' None)])"
proof -
  have first: "createProject no_faults ''2024-05-01T10:00:00.000Z'' ''p-1'' (Some ''alice'')
       (Some ''Site plans'') None []
     = (Response 201 (Ok (Created ''p-1'' ''Site plans'' None ''2024-05-01T10:00:00.000Z'')),
        [(project_key ''alice'' ''p-1'',
          project_item ''2024-05-01T10:00:00.000Z'' ''alice'' ''p-1'' ''Site plans'' None)])"
    by (simp add: createProject_def userIdOf_def trim_def is_space_def no_faults_def
          DynamoDBService_createProject_def PutCommand_if_absent_def key_of_project_item
          sendSuccess_def project_key_def Let_def)
  have valid: "trim ''Other name'' \<noteq> []" "length ''Other name'' \<le> 100"
    by (simp_all add: trim_def is_space_def)
  have store: "no_faults CreateProject = None"
    by (simp add: no_faults_def)
  from createProject_twice_conflict[where flt' = no_faults
      and now' = "''2024-05-02T10:00:00.000Z''" and descr' = "Some ''again''"
      and n' = "''Other name''" and d' = None, OF first valid store]
  show ?thesis
    using first valid store by (simp add: userIdOf_def)
qed

text \<open>
  C2. Confirming a file row in status \<open>pending\<close> whose storage key holds no object is
  answered with 400 \<open>VALIDATION_ERROR\<close>, and the world (the table and the bucket) is
  unchanged: the row is still there, still \<open>pending\<close>, with every attribute as it was.
\<close>

theorem confirm_without_object_is_rejected:
  assumes row: "map_of (tbl w) (file_key projectId fileId) = Some row"
    and pending: "row ''status'' = Some (S ''pending'')"
    and key: "row ''s3Key'' = Some (S k)"
    and absent: "k \<notin> s3 w"
    and store: "flt GetFileById = None" "flt ObjectExists = None"
  shows "confirmUpload flt now reqUserId projectId fileId w =
           (Response 400 (Err VALIDATION_ERROR ''File has not been uploaded to storage''), w)
         \<and> (\<exists>row'. map_of (tbl (snd (confirmUpload flt now reqUserId projectId fileId w)))
                       (file_key projectId fileId) = Some row'
                \<and> row' = row \<and> row' ''status'' = Some (S ''pending''))"
  using assms
  by (simp add: confirmUpload_def getFileById_ok objectExists_absent sendError_def)

theorem confirm_without_object_is_rejected_witness:
  "map_of (tbl \<lparr>tbl = [(file_key ''p-1'' ''f-1'', example_file)], s3 = {}\<rparr>)
       (file_key ''p-1'' ''f-1'') = Some example_file
   \<and> example_file ''status'' = Some (S ''pending'')
   \<and> example_file ''s3Key'' = Some (S ''p-1/f-1/plan.pdf'')
   \<and> ''p-1/f-1/plan.pdf'' \<notin> s3 \<lparr>tbl = [(file_key ''p-1'' ''f-1'', example_file)], s3 = {}\<rparr>
   \<and> no_faults GetFileById = None \<and> no_faults ObjectExists = None
   \<and> confirmUpload no_faults ''2024-05-01T11:00:00.000Z'' (Some ''alice'') ''p-1'' ''f-1''
        \<lparr>tbl = [(file_key ''p-1'' ''f-1'', example_file)], s3 = {}\<rparr>
      = (Response 400 (Err VALIDATION_ERROR ''File has not been uploaded to storage''),
         \<lparr>tbl = [(file_key ''p-1'' ''f-1'', example_file)], s3 = {}\<rparr>)"
proof -
  let ?w = "\<lparr>tbl = [(file_key ''p-1'' ''f-1'', example_file)], s3 = {}\<rparr>"
  have row: "map_of (tbl ?w) (file_key ''p-1'' ''f-1'') = Some example_file"
    by simp
  have pending: "example_file ''status'' = Some (S ''pending'')"
    and key: "example_file ''s3Key'' = Some (S ''p-1/f-1/plan.pdf'')"
    by (simp_all add: example_file_def file_item_def)
  have absent: "''p-1/f-1/plan.pdf'' \<notin> s3 ?w"
    by simp
  have store: "no_faults GetFileById = None" "no_faults ObjectExists = None"
    by (simp_all add: no_faults_def)
  from confirm_without_object_is_rejected[where row = example_file and flt = no_faults
      and now = "''2024-05-01T11:00:00.000Z''" and reqUserId = "Some ''alice''",
      OF row pending key absent store]
  show ?thesis
    using row pending key absent store by simp
qed

text \<open>
  C3. When the caller gives no status filter (the \<open>status\<close> query parameter is absent, empty
  or not a string, so that the handler sets no \<open>options.status\<close>), no row of a successful
  \<open>listProjects\<close> or \<open>listFiles\<close> response has status \<open>deleted\<close>; the same holds for the
  two service queries called without a status.
\<close>

theorem listings_exclude_deleted_by_default:
  assumes "stringOption status = None"
  shows "(listProjects flt decode reqUserId status limit lastKey t
            = Response code (Ok (Listing rows nextKey))
          \<longrightarrow> (\<forall>r \<in> set rows. r ''status'' \<noteq> Some (S ''deleted'')))
       \<and> (listFiles flt decode projectId fileType status limit lastKey t
            = Response code (Ok (Listing rows nextKey))
          \<longrightarrow> (\<forall>r \<in> set rows. r ''status'' \<noteq> Some (S ''deleted'')))
       \<and> (getProjectsByUser fault userId None lim startKey t = Inr (rows, nextKey)
          \<longrightarrow> (\<forall>r \<in> set rows. r ''status'' \<noteq> Some (S ''deleted'')))
       \<and> (getFilesByProject fault projectId ft None lim startKey t = Inr (rows, nextKey)
          \<longrightarrow> (\<forall>r \<in> set rows. r ''status'' \<noteq> Some (S ''deleted'')))"
proof (intro conjI impI)
  have none: "given (stringOption status) = None"
    using assms by (simp add: given_def)
  {
    assume "listProjects flt decode reqUserId status limit lastKey t
              = Response code (Ok (Listing rows nextKey))"
    then have "getProjectsByUser (flt GetProjectsByUser) (userIdOf reqUserId)
                 (stringOption status) (limitOption limit) (lastKeyOption decode lastKey) t
               = Inr (rows, nextKey)"
      by (auto simp: listProjects_def Let_def sendSuccess_def sendError_def split: sum.splits)
    then have "list_all (status_filter (stringOption status)) rows"
      unfolding getProjectsByUser_def by (rule QueryCommand_rows_pass_filter)
    then show "\<forall>r \<in> set rows. r ''status'' \<noteq> Some (S ''deleted'')"
      using none by (auto simp: list_all_iff dest: default_status_filter)
  }
  {
    assume "listFiles flt decode projectId fileType status limit lastKey t
              = Response code (Ok (Listing rows nextKey))"
    then have "getFilesByProject (flt GetFilesByProject) projectId (stringOption fileType)
                 (stringOption status) (limitOption limit) (lastKeyOption decode lastKey) t
               = Inr (rows, nextKey)"
      by (auto simp: listFiles_def sendSuccess_def sendError_def split: sum.splits)
    then have "list_all (file_filter (stringOption fileType) (stringOption status)) rows"
      unfolding getFilesByProject_def by (rule QueryCommand_rows_pass_filter)
    then show "\<forall>r \<in> set rows. r ''status'' \<noteq> Some (S ''deleted'')"
      using none by (auto simp: list_all_iff file_filter_def dest: default_status_filter)
  }
  {
    assume "getProjectsByUser fault userId None lim startKey t = Inr (rows, nextKey)"
    then have "list_all (status_filter None) rows"
      unfolding getProjectsByUser_def by (rule QueryCommand_rows_pass_filter)
    then show "\<forall>r \<in> set rows. r ''status'' \<noteq> Some (S ''deleted'')"
      by (auto simp: list_all_iff status_filter_def given_def)
  }
  {
    assume "getFilesByProject fault projectId ft None lim startKey t = Inr (rows, nextKey)"
    then have "list_all (file_filter ft None) rows"
      unfolding getFilesByProject_def by (rule QueryCommand_rows_pass_filter)
    then show "\<forall>r \<in> set rows. r ''status'' \<noteq> Some (S ''deleted'')"
      by (auto simp: list_all_iff file_filter_def status_filter_def given_def)
  }
qed

theorem listings_exclude_deleted_by_default_witness:
  "stringOption None = None
   \<and> listProjects no_faults (\<lambda>s. None) (Some ''alice'') None None None
        [(project_key ''alice'' ''p-2'',
          (project_item ''2024-04-01T08:00:00.000Z'' ''alice'' ''p-2'' ''Old site'' None)
            (''status'' \<mapsto> S ''deleted'')),
         (project_key ''alice'' ''p-1'', example_project),
         (file_key ''p-1'' ''f-1'', example_file)]
      = Response 200 (Ok (Listing [example_project] None))
   \<and> example_project ''status'' \<noteq> Some (S ''deleted'')"
proof -
  let ?t = "[(project_key ''alice'' ''p-2'',
          (project_item ''2024-04-01T08:00:00.000Z'' ''alice'' ''p-2'' ''Old site'' None)
            (''status'' \<mapsto> S ''deleted'')),
         (project_key ''alice'' ''p-1'', example_project),
         (file_key ''p-1'' ''f-1'', example_file)]"
  have none: "stringOption None = None"
    by (simp add: stringOption_def)
  have listing: "listProjects no_faults (\<lambda>s. None) (Some ''alice'') None None None ?t
      = Response 200 (Ok (Listing [example_project] None))"
    by (simp add: listProjects_def getProjectsByUser_def QueryCommand_def in_range_def
        valid_limit_def valid_start_def status_filter_def given_def stringOption_def limitOption_def lastKeyOption_def
        example_project_def example_file_def project_item_def file_item_def
        project_key_def file_key_def userIdOf_def no_faults_def sendSuccess_def Let_def)
  from listings_exclude_deleted_by_default[OF none, where flt = no_faults
      and decode = "\<lambda>s. None" and reqUserId = "Some ''alice''" and limit = None
      and lastKey = None and t = ?t and code = 200 and rows = "[example_project]"
      and nextKey = None]
  have "\<forall>r \<in> set [example_project]. r ''status'' \<noteq> Some (S ''deleted'')"
    using listing by blast
  then have "example_project ''status'' \<noteq> Some (S ''deleted'')"
    by simp
  with none listing show ?thesis
    by blast
qed

text \<open>
  C4, as the claim states it, fails: the extension is split off before the replacement and is
  appended with only its letters lower-cased, and the letters before the extension keep their
  case.
\<close>

theorem sanitizeFileName_counterexample:
  "sanitizeFileName ''../My File.P$G'' = ''My_File.p$g''
   \<and> \<not> list_all is_safe_char (sanitizeFileName ''../My File.P$G'')
   \<and> toLowerCase (sanitizeFileName ''../My File.P$G'') \<noteq> sanitizeFileName ''../My File.P$G''"
  by code_simp

text \<open>
  C4, amended. The result of \<open>sanitizeFileName\<close> begins with the stem: the last path
  component without its extension, with every character outside \<open>[A-Za-z0-9._-]\<close> replaced
  by an underscore and every other character (letter case included) kept, runs of underscores
  made one, cut to 200 characters. The result contains no path separator \<open>/\<close>. When the
  extension itself consists of characters of the class, the result is the stem followed by
  the extension in small letters, and consists of characters of the class only.
\<close>

theorem sanitizeFileName_shape:
  "\<exists>name stem rest.
      basename fileName = name @ extname fileName
    \<and> stem = take 200 (collapse_underscores (replace_unsafe name))
    \<and> sanitizeFileName fileName = stem @ rest
    \<and> list_all is_safe_char stem
    \<and> length stem \<le> 200
    \<and> length (replace_unsafe name) = length name
    \<and> (\<forall>i < length name. is_safe_char (name ! i) \<longrightarrow> replace_unsafe name ! i = name ! i)
    \<and> CHR ''/'' \<notin> set (sanitizeFileName fileName)
    \<and> (list_all is_safe_char (extname fileName) \<longrightarrow>
          rest = toLowerCase (extname fileName)
        \<and> list_all (\<lambda>c. \<not> is_capital c) rest
        \<and> list_all is_safe_char (sanitizeFileName fileName))"
proof -
  let ?name = "basename_suffix (basename fileName) (extname (basename fileName))"
  let ?stem = "take 200 (collapse_underscores (replace_unsafe ?name))"
  let ?rest = "toLowerCase (extname fileName)"
  have split: "basename fileName = ?name @ extname fileName"
    using name_and_extension[OF basename_no_slash, of fileName] by (simp add: extname_basename)
  have eq: "sanitizeFileName fileName = ?stem @ ?rest"
    by (simp add: sanitizeFileName_def Let_def extname_basename)
  have safe: "list_all is_safe_char ?stem"
    by (rule sanitized_stem_safe)
  have "CHR ''/'' \<notin> set ?stem"
    using safe by (auto simp: list_all_iff is_safe_char_def)
  moreover have "CHR ''/'' \<notin> set ?rest"
  proof
    assume "CHR ''/'' \<in> set ?rest"
    then obtain c where c: "c \<in> set (extname fileName)" and "lower_char c = CHR ''/''"
      by (auto simp: toLowerCase_def)
    then have "c = CHR ''/''"
      by (simp add: lower_char_slash)
    with c show False
      using extname_no_slash[of fileName] by simp
  qed
  ultimately have slash: "CHR ''/'' \<notin> set (sanitizeFileName fileName)"
    by (simp add: eq)
  have lower: "list_all (\<lambda>c. \<not> is_capital c) ?rest"
    using lower_char_not_capital by (auto simp: toLowerCase_def list_all_iff)
  have all_safe: "list_all is_safe_char (sanitizeFileName fileName)"
    if "list_all is_safe_char (extname fileName)"
    using safe toLowerCase_safe[OF that] by (simp add: eq)
  show ?thesis
    using split eq safe slash lower all_safe replace_unsafe_keeps[where s = ?name]
    by (intro exI[of _ ?name] exI[of _ ?stem] exI[of _ ?rest]) simp
qed

theorem sanitizeFileName_shape_witness:
  "list_all is_safe_char (extname ''/tmp/uploads/Site Plan (v2).PDF'')
   \<and> basename ''/tmp/uploads/Site Plan (v2).PDF'' = ''Site Plan (v2)'' @ ''.PDF''
   \<and> sanitizeFileName ''/tmp/uploads/Site Plan (v2).PDF'' = ''Site_Plan_v2_'' @ ''.pdf''
   \<and> list_all is_safe_char (sanitizeFileName ''/tmp/uploads/Site Plan (v2).PDF'')"
proof -
  have ext: "extname ''/tmp/uploads/Site Plan (v2).PDF'' = ''.PDF''"
    and base: "basename ''/tmp/uploads/Site Plan (v2).PDF'' = ''Site Plan (v2)'' @ ''.PDF''"
    and res: "sanitizeFileName ''/tmp/uploads/Site Plan (v2).PDF'' = ''Site_Plan_v2_'' @ ''.pdf''"
    by code_simp+
  have safe: "list_all is_safe_char (extname ''/tmp/uploads/Site Plan (v2).PDF'')"
    unfolding ext by code_simp
  from sanitizeFileName_shape[of "''/tmp/uploads/Site Plan (v2).PDF''"] safe
  have "list_all is_safe_char (sanitizeFileName ''/tmp/uploads/Site Plan (v2).PDF'')"
    by blast
  with safe base res show ?thesis
    by (intro conjI)
qed

text \<open>
  C5, as the claim states it, fails: without a \<open>limit\<close> parameter the handlers pass no limit
  to the store at all, and a negative number is passed on as it is.
\<close>

theorem limit_counterexample:
  "limitOption None = None
   \<and> limitOption (Some (QStr ''-5'')) = Some (Finite (- 5))"
  by (simp add: limitOption_def parseInt_def is_space_def is_digit_def digit_value_def
        digits_value_def to_double_exact min_100_def Let_def)

text \<open>
  C5, amended. Without a \<open>limit\<close> parameter (or with an empty one) no limit is passed to the
  store. With one, the limit passed is at most 100; it is 50 when the value does not parse as
  a number or parses as 0, the smaller of the number and 100 (so between 1 and 100) when the
  number is positive, and the number itself when it is negative. Both list handlers pass this
  value as the \<open>Limit\<close> of their query.
\<close>

theorem limit_option_bounds:
  "limitOption None = None
   \<and> limitOption (Some (QStr [])) = None
   \<and> (truthy (Some q) \<longrightarrow>
        (\<exists>x. limitOption (Some q) = Some x
           \<and> (x = NegInfinity \<or> (\<exists>n. x = Finite n \<and> n \<le> 100))
           \<and> (parseInt (js_string q) = None \<or> parseInt (js_string q) = Some (Finite 0)
                \<longrightarrow> x = Finite 50)
           \<and> (parseInt (js_string q) = Some PosInfinity \<longrightarrow> x = Finite 100)
           \<and> (\<forall>m. parseInt (js_string q) = Some (Finite m) \<and> 0 < m
                \<longrightarrow> x = Finite (min m 100) \<and> 1 \<le> min m 100)
           \<and> (\<forall>m. parseInt (js_string q) = Some (Finite m) \<and> m < 0 \<longrightarrow> x = Finite m)
           \<and> (parseInt (js_string q) = Some NegInfinity \<longrightarrow> x = NegInfinity)))
   \<and> listProjects flt decode reqUserId status limit lastKey t
        = (case QueryCommand (flt GetProjectsByUser) (''USER#'' @ userIdOf reqUserId) ''PROJECT#''
                  (status_filter (stringOption status)) (limitOption limit)
                  (lastKeyOption decode lastKey) t of
             Inr (projects, nextKey) \<Rightarrow> Response 200 (Ok (Listing projects nextKey))
           | Inl e \<Rightarrow> Response 500 (Err INTERNAL_ERROR ''Failed to list projects''))
   \<and> listFiles flt decode projectId fileType status limit lastKey t
        = (case QueryCommand (flt GetFilesByProject) (''PROJECT#'' @ projectId) ''FILE#''
                  (file_filter (stringOption fileType) (stringOption status)) (limitOption limit)
                  (lastKeyOption decode lastKey) t of
             Inr (files, nextKey) \<Rightarrow> Response 200 (Ok (Listing files nextKey))
           | Inl e \<Rightarrow> Response 500 (Err INTERNAL_ERROR ''Failed to list files''))"
proof (intro conjI impI)
  show "limitOption None = None" "limitOption (Some (QStr [])) = None"
    by (simp_all add: limitOption_def)
  show "listProjects flt decode reqUserId status limit lastKey t
        = (case QueryCommand (flt GetProjectsByUser) (''USER#'' @ userIdOf reqUserId) ''PROJECT#''
                  (status_filter (stringOption status)) (limitOption limit)
                  (lastKeyOption decode lastKey) t of
             Inr (projects, nextKey) \<Rightarrow> Response 200 (Ok (Listing projects nextKey))
           | Inl e \<Rightarrow> Response 500 (Err INTERNAL_ERROR ''Failed to list projects''))"
    by (simp add: listProjects_def getProjectsByUser_def sendSuccess_def sendError_def Let_def
          split: sum.splits)
  show "listFiles flt decode projectId fileType status limit lastKey t
        = (case QueryCommand (flt GetFilesByProject) (''PROJECT#'' @ projectId) ''FILE#''
                  (file_filter (stringOption fileType) (stringOption status)) (limitOption limit)
                  (lastKeyOption decode lastKey) t of
             Inr (files, nextKey) \<Rightarrow> Response 200 (Ok (Listing files nextKey))
           | Inl e \<Rightarrow> Response 500 (Err INTERNAL_ERROR ''Failed to list files''))"
    by (simp add: listFiles_def getFilesByProject_def sendSuccess_def sendError_def
          split: sum.splits)
  assume "truthy (Some q)"
  then show "\<exists>x. limitOption (Some q) = Some x
           \<and> (x = NegInfinity \<or> (\<exists>n. x = Finite n \<and> n \<le> 100))
           \<and> (parseInt (js_string q) = None \<or> parseInt (js_string q) = Some (Finite 0)
                \<longrightarrow> x = Finite 50)
           \<and> (parseInt (js_string q) = Some PosInfinity \<longrightarrow> x = Finite 100)
           \<and> (\<forall>m. parseInt (js_string q) = Some (Finite m) \<and> 0 < m
                \<longrightarrow> x = Finite (min m 100) \<and> 1 \<le> min m 100)
           \<and> (\<forall>m. parseInt (js_string q) = Some (Finite m) \<and> m < 0 \<longrightarrow> x = Finite m)
           \<and> (parseInt (js_string q) = Some NegInfinity \<longrightarrow> x = NegInfinity)"
    by (cases "parseInt (js_string q)")
       (auto simp: limitOption_def min_100_def split: number.splits)
qed

theorem limit_option_bounds_witness:
  "truthy (Some (QStr ''250''))
   \<and> parseInt (js_string (QStr ''250'')) = Some (Finite 250)
   \<and> limitOption (Some (QStr ''250'')) = Some (Finite 100)
   \<and> truthy (Some (QStr ''many''))
   \<and> parseInt (js_string (QStr ''many'')) = None
   \<and> limitOption (Some (QStr ''many'')) = Some (Finite 50)
   \<and> truthy (Some (QStr [CHR 0xA0, CHR ''1'', CHR ''2'']))
   \<and> parseInt (js_string (QStr [CHR 0xA0, CHR ''1'', CHR ''2''])) = Some (Finite 12)
   \<and> limitOption (Some (QStr [CHR 0xA0, CHR ''1'', CHR ''2''])) = Some (Finite 12)"
proof -
  have t1: "truthy (Some (QStr ''250''))" and t2: "truthy (Some (QStr ''many''))"
    and t3: "truthy (Some (QStr [CHR 0xA0, CHR ''1'', CHR ''2'']))"
    by simp_all
  have p1: "parseInt (js_string (QStr ''250'')) = Some (Finite 250)"
    and p2: "parseInt (js_string (QStr ''many'')) = None"
    and p3: "parseInt (js_string (QStr [CHR 0xA0, CHR ''1'', CHR ''2''])) = Some (Finite 12)"
    by (simp_all add: parseInt_def is_space_def is_digit_def digit_value_def digits_value_def
          to_double_exact Let_def)
  have "limitOption (Some (QStr ''250'')) = Some (Finite 100)"
    using limit_option_bounds[where q = "QStr ''250''"] t1 p1 by auto
  moreover have "limitOption (Some (QStr ''many'')) = Some (Finite 50)"
    using limit_option_bounds[where q = "QStr ''many''"] t2 p2 by auto
  moreover have "limitOption (Some (QStr [CHR 0xA0, CHR ''1'', CHR ''2''])) = Some (Finite 12)"
    using limit_option_bounds[where q = "QStr [CHR 0xA0, CHR ''1'', CHR ''2'']"] t3 p3 by auto
  ultimately show ?thesis
    using t1 t2 t3 p1 p2 p3 by (intro conjI)
qed




text \<open>
  C7, as the claim states it, fails for a cursor that is corrupted but still decodes: the
  cursor \<open>MTIz\<close> decodes to the number 123, and the cursor of another user's key decodes to a
  key outside the queried range; either is passed to the store, and the request is answered
  with 500 where the listing without a cursor succeeds.
\<close>

theorem cursor_counterexample:
  "listProjects no_faults example_decode (Some ''alice'') None None (Some (QStr ''MTIz''))
       [(project_key ''alice'' ''p-1'', example_project)]
     = Response 500 (Err INTERNAL_ERROR ''Failed to list projects'')
   \<and> listProjects no_faults example_decode (Some ''alice'') None None
       (Some (QStr ''eyJQSyI6IlVTRVIjYm9iIiwiU0siOiJQUk9KRUNUI3AtMSJ9''))
       [(project_key ''alice'' ''p-1'', example_project)]
     = Response 500 (Err INTERNAL_ERROR ''Failed to list projects'')
   \<and> listProjects no_faults example_decode (Some ''alice'') None None None
       [(project_key ''alice'' ''p-1'', example_project)]
     = Response 200 (Ok (Listing [example_project] None))"
  by (simp add: listProjects_def getProjectsByUser_def QueryCommand_def in_range_def
        valid_limit_def valid_start_def status_filter_def given_def stringOption_def
        limitOption_def lastKeyOption_def example_decode_def example_project_def
        project_item_def project_key_def userIdOf_def no_faults_def sendSuccess_def
        sendError_def Let_def)

text \<open>
  C7, amended. A \<open>lastKey\<close> whose decoding throws changes nothing: \<open>listProjects\<close> and
  \<open>listFiles\<close> answer exactly as they do without a cursor. A \<open>lastKey\<close> that decodes to a
  value that is no key, or to a key outside the queried range, is passed to the store and the
  request is answered with 500 \<open>INTERNAL_ERROR\<close>.
\<close>

theorem cursor_handling:
  "(decode cursor = None \<longrightarrow>
        listProjects flt decode reqUserId status limit (Some (QStr cursor)) t
          = listProjects flt decode reqUserId status limit None t
      \<and> listFiles flt decode projectId fileType status limit (Some (QStr cursor)) t
          = listFiles flt decode projectId fileType status limit None t)
   \<and> (cursor \<noteq> []
        \<and> (decode cursor = Some OtherValue
            \<or> (\<exists>k. decode cursor = Some (KeyObject k)
                    \<and> \<not> in_range (''USER#'' @ userIdOf reqUserId) ''PROJECT#'' k))
      \<longrightarrow> listProjects flt decode reqUserId status limit (Some (QStr cursor)) t
            = Response 500 (Err INTERNAL_ERROR ''Failed to list projects''))
   \<and> (cursor \<noteq> []
        \<and> (decode cursor = Some OtherValue
            \<or> (\<exists>k. decode cursor = Some (KeyObject k)
                    \<and> \<not> in_range (''PROJECT#'' @ projectId) ''FILE#'' k))
      \<longrightarrow> listFiles flt decode projectId fileType status limit (Some (QStr cursor)) t
            = Response 500 (Err INTERNAL_ERROR ''Failed to list files''))"
proof (intro conjI impI)
  assume "decode cursor = None"
  then show "listProjects flt decode reqUserId status limit (Some (QStr cursor)) t
          = listProjects flt decode reqUserId status limit None t"
    and "listFiles flt decode projectId fileType status limit (Some (QStr cursor)) t
          = listFiles flt decode projectId fileType status limit None t"
    by (simp_all add: listProjects_def listFiles_def lastKeyOption_def)
next
  assume a: "cursor \<noteq> []
        \<and> (decode cursor = Some OtherValue
            \<or> (\<exists>k. decode cursor = Some (KeyObject k)
                    \<and> \<not> in_range (''USER#'' @ userIdOf reqUserId) ''PROJECT#'' k))"
  then have "\<not> valid_start (''USER#'' @ userIdOf reqUserId) ''PROJECT#''
                 (lastKeyOption decode (Some (QStr cursor)))"
    by (auto simp: valid_start_def lastKeyOption_def)
  from QueryCommand_rejects_start[OF this, where fault = "flt GetProjectsByUser"
      and filterExpression = "status_filter (stringOption status)"
      and limit = "limitOption limit" and t = t]
  obtain e where "getProjectsByUser (flt GetProjectsByUser) (userIdOf reqUserId)
      (stringOption status) (limitOption limit) (lastKeyOption decode (Some (QStr cursor))) t
      = Inl e"
    by (auto simp: getProjectsByUser_def)
  then show "listProjects flt decode reqUserId status limit (Some (QStr cursor)) t
            = Response 500 (Err INTERNAL_ERROR ''Failed to list projects'')"
    by (simp add: listProjects_def sendError_def Let_def)
next
  assume a: "cursor \<noteq> []
        \<and> (decode cursor = Some OtherValue
            \<or> (\<exists>k. decode cursor = Some (KeyObject k)
                    \<and> \<not> in_range (''PROJECT#'' @ projectId) ''FILE#'' k))"
  then have "\<not> valid_start (''PROJECT#'' @ projectId) ''FILE#''
                 (lastKeyOption decode (Some (QStr cursor)))"
    by (auto simp: valid_start_def lastKeyOption_def)
  from QueryCommand_rejects_start[OF this, where fault = "flt GetFilesByProject"
      and filterExpression = "file_filter (stringOption fileType) (stringOption status)"
      and limit = "limitOption limit" and t = t]
  obtain e where "getFilesByProject (flt GetFilesByProject) projectId (stringOption fileType)
      (stringOption status) (limitOption limit) (lastKeyOption decode (Some (QStr cursor))) t
      = Inl e"
    by (auto simp: getFilesByProject_def)
  then show "listFiles flt decode projectId fileType status limit (Some (QStr cursor)) t
            = Response 500 (Err INTERNAL_ERROR ''Failed to list files'')"
    by (simp add: listFiles_def sendError_def)
qed

theorem cursor_handling_witness:
  "example_decode ''%%%'' = None
   \<and> listProjects no_faults example_decode (Some ''alice'') None None (Some (QStr ''%%%''))
        [(project_key ''alice'' ''p-1'', example_project)]
      = listProjects no_faults example_decode (Some ''alice'') None None None
        [(project_key ''alice'' ''p-1'', example_project)]
   \<and> listProjects no_faults example_decode (Some ''alice'') None None None
        [(project_key ''alice'' ''p-1'', example_project)]
      = Response 200 (Ok (Listing [example_project] None))
   \<and> ''MTIz'' \<noteq> [] \<and> example_decode ''MTIz'' = Some OtherValue
   \<and> listProjects no_faults example_decode (Some ''alice'') None None (Some (QStr ''MTIz''))
        [(project_key ''alice'' ''p-1'', example_project)]
      = Response 500 (Err INTERNAL_ERROR ''Failed to list projects'')"
proof -
  let ?t = "[(project_key ''alice'' ''p-1'', example_project)]"
  have undecodable: "example_decode ''%%%'' = None"
    and other: "''MTIz'' \<noteq> []" "example_decode ''MTIz'' = Some OtherValue"
    by (simp_all add: example_decode_def)
  have same: "listProjects no_faults example_decode (Some ''alice'') None None
                 (Some (QStr ''%%%'')) ?t
      = listProjects no_faults example_decode (Some ''alice'') None None None ?t"
    using cursor_handling[where decode = example_decode and cursor = "''%%%''"] undecodable
    by blast
  have start: "listProjects no_faults example_decode (Some ''alice'') None None None ?t
      = Response 200 (Ok (Listing [example_project] None))"
    by (simp add: listProjects_def getProjectsByUser_def QueryCommand_def in_range_def
        valid_limit_def valid_start_def status_filter_def given_def stringOption_def
        limitOption_def lastKeyOption_def example_project_def project_item_def
        project_key_def userIdOf_def no_faults_def sendSuccess_def Let_def)
  have fails: "listProjects no_faults example_decode (Some ''alice'') None None
                 (Some (QStr ''MTIz'')) ?t
      = Response 500 (Err INTERNAL_ERROR ''Failed to list projects'')"
    using cursor_handling[where decode = example_decode and cursor = "''MTIz''"] other
    by blast
  show ?thesis
    using undecodable same start other fails by (intro conjI)
qed

text \<open>
  C8. A soft delete (\<open>hard\<close> is not \<open>true\<close>) of an existing file row, the store answering,
  leaves the bucket as it is, leaves the row in the table with only its status changed to
  \<open>deleted\<close>, changes no other row but possibly the counters of the project row, and
  afterwards the download-URL and metadata endpoints answer 404 \<open>FILE_NOT_FOUND\<close>.
\<close>

theorem soft_delete_only_flips_status:
  assumes row: "map_of (tbl w) (file_key projectId fileId) = Some row"
    and soft: "hard \<noteq> Some (QStr ''true'')"
    and store: "flt GetFileById = None" "flt UpdateFileStatus = None"
    and later: "flt' GetFileById = None"
  shows "\<exists>r w'. deleteFile flt now reqUserId projectId fileId hard w = (r, w')
         \<and> s3 w' = s3 w
         \<and> map_of (tbl w') (file_key projectId fileId) = Some (row(''status'' \<mapsto> S ''deleted''))
         \<and> (\<forall>k. k \<noteq> file_key projectId fileId \<and> k \<noteq> project_key (userIdOf reqUserId) projectId
                \<longrightarrow> map_of (tbl w') k = map_of (tbl w) k)
         \<and> getDownloadUrl flt' projectId fileId w'
              = Response 404 (Err FILE_NOT_FOUND ''File has been deleted'')
         \<and> getFileMetadata flt' projectId fileId w'
              = Response 404 (Err FILE_NOT_FOUND ''File has been deleted'')"
proof (cases "row ''status'' = Some (S ''deleted'')")
  case True
  then have same: "row(''status'' \<mapsto> S ''deleted'') = row"
    by (simp add: fun_upd_idem)
  have "deleteFile flt now reqUserId projectId fileId hard w =
          (Response 404 (Err FILE_NOT_FOUND ''File already deleted''), w)"
    using row soft True store(1) by (rule deleteFile_soft_already[where row = row])
  then show ?thesis
    using fetch_deleted_row[where row = row and flt = flt', of w projectId fileId] row True later
    by (simp add: same)
next
  case False
  let ?fk = "file_key projectId fileId"
  let ?row' = "row(''status'' \<mapsto> S ''deleted'')"
  let ?t' = "updateProjectStats_caught (flt UpdateProjectStats) now (userIdOf reqUserId)
               projectId (- 1) (negated (row ''fileSize''))
               (AList.update ?fk ?row' (tbl w))"
  have step: "deleteFile flt now reqUserId projectId fileId hard w =
                (Response 200 (Ok (Message ''File deleted'')), w\<lparr>tbl := ?t'\<rparr>)"
    using row soft False store by (rule deleteFile_soft_step[where row = row])
  have row': "map_of (tbl (w\<lparr>tbl := ?t'\<rparr>)) ?fk = Some ?row'"
    by (simp add: stats_caught_other_rows file_key_neq_project_key update_conv')
  have others: "map_of (tbl (w\<lparr>tbl := ?t'\<rparr>)) k = map_of (tbl w) k"
    if "k \<noteq> ?fk \<and> k \<noteq> project_key (userIdOf reqUserId) projectId" for k
    using that by (simp add: stats_caught_other_rows update_conv')
  have gone: "?row' ''status'' = Some (S ''deleted'')"
    by simp
  show ?thesis
    using step row' others
      fetch_deleted_row[where row = ?row' and flt = flt', of "w\<lparr>tbl := ?t'\<rparr>" projectId fileId]
      gone later
    by simp
qed

theorem soft_delete_only_flips_status_witness:
  "map_of (tbl \<lparr>tbl = [(file_key ''p-1'' ''f-1'', example_file),
                       (project_key ''alice'' ''p-1'', example_project)],
                s3 = {''p-1/f-1/plan.pdf''}\<rparr>) (file_key ''p-1'' ''f-1'') = Some example_file
   \<and> None \<noteq> Some (QStr ''true'')
   \<and> no_faults GetFileById = None \<and> no_faults UpdateFileStatus = None
   \<and> (\<exists>r w'. deleteFile no_faults ''2024-05-04T12:00:00.000Z'' (Some ''alice'') ''p-1'' ''f-1'' None
                 \<lparr>tbl = [(file_key ''p-1'' ''f-1'', example_file),
                         (project_key ''alice'' ''p-1'', example_project)],
                  s3 = {''p-1/f-1/plan.pdf''}\<rparr> = (r, w')
         \<and> s3 w' = s3 \<lparr>tbl = [(file_key ''p-1'' ''f-1'', example_file),
                               (project_key ''alice'' ''p-1'', example_project)],
                        s3 = {''p-1/f-1/plan.pdf''}\<rparr>
         \<and> map_of (tbl w') (file_key ''p-1'' ''f-1'')
              = Some (example_file(''status'' \<mapsto> S ''deleted''))
         \<and> (\<forall>k. k \<noteq> file_key ''p-1'' ''f-1''
                  \<and> k \<noteq> project_key (userIdOf (Some ''alice'')) ''p-1''
                \<longrightarrow> map_of (tbl w') k
                    = map_of (tbl \<lparr>tbl = [(file_key ''p-1'' ''f-1'', example_file),
                                          (project_key ''alice'' ''p-1'', example_project)],
                                   s3 = {''p-1/f-1/plan.pdf''}\<rparr>) k)
         \<and> getDownloadUrl no_faults ''p-1'' ''f-1'' w'
              = Response 404 (Err FILE_NOT_FOUND ''File has been deleted'')
         \<and> getFileMetadata no_faults ''p-1'' ''f-1'' w'
              = Response 404 (Err FILE_NOT_FOUND ''File has been deleted''))"
proof -
  let ?w = "\<lparr>tbl = [(file_key ''p-1'' ''f-1'', example_file),
                   (project_key ''alice'' ''p-1'', example_project)],
            s3 = {''p-1/f-1/plan.pdf''}\<rparr>"
  have row: "map_of (tbl ?w) (file_key ''p-1'' ''f-1'') = Some example_file"
    by simp
  have soft: "None \<noteq> Some (QStr ''true'')"
    by simp
  have store: "no_faults GetFileById = None" "no_faults UpdateFileStatus = None"
    by (simp_all add: no_faults_def)
  from soft_delete_only_flips_status[where row = example_file and flt = no_faults
      and flt' = no_faults and now = "''2024-05-04T12:00:00.000Z''"
      and reqUserId = "Some ''alice''", OF row soft store store(1)]
  show ?thesis
    using row soft store by blast
qed

text \<open>
  C9. Whatever happens to the counter adjustment (\<open>sf\<close> is any failure injected at that call,
  and the project row may be missing), a confirm, a soft delete and a hard delete whose own
  row mutation goes through answer with success, and the file row ends as the mutation left
  it: \<open>uploaded\<close>, \<open>deleted\<close>, or removed together with its object.
\<close>

theorem counter_failure_is_swallowed:
  assumes row: "map_of (tbl w) (file_key projectId fileId) = Some row"
    and key: "row ''s3Key'' = Some (S k)"
    and get: "flt GetFileById = None"
  shows "(k \<in> s3 w \<and> flt ObjectExists = None \<and> flt UpdateFileStatus = None \<longrightarrow>
            (\<exists>w'. confirmUpload (flt(UpdateProjectStats := sf)) now reqUserId projectId fileId w
                     = (Response 200 (Ok (Row (Some (row(''status'' \<mapsto> S ''uploaded''))))), w')
                \<and> map_of (tbl w') (file_key projectId fileId)
                     = Some (row(''status'' \<mapsto> S ''uploaded''))
                \<and> s3 w' = s3 w))
       \<and> (row ''status'' \<noteq> Some (S ''deleted'') \<and> hard \<noteq> Some (QStr ''true'')
            \<and> flt UpdateFileStatus = None \<longrightarrow>
            (\<exists>w'. deleteFile (flt(UpdateProjectStats := sf)) now reqUserId projectId fileId hard w
                     = (Response 200 (Ok (Message ''File deleted'')), w')
                \<and> map_of (tbl w') (file_key projectId fileId)
                     = Some (row(''status'' \<mapsto> S ''deleted''))
                \<and> s3 w' = s3 w))
       \<and> (flt DeleteObject = None \<and> flt HardDeleteFile = None \<longrightarrow>
            (\<exists>w'. deleteFile (flt(UpdateProjectStats := sf)) now reqUserId projectId fileId
                       (Some (QStr ''true'')) w
                     = (Response 200 (Ok (Message ''File permanently deleted'')), w')
                \<and> map_of (tbl w') (file_key projectId fileId) = None
                \<and> s3 w' = s3 w - {k}))"
proof (intro conjI impI)
  let ?flt = "flt(UpdateProjectStats := sf)"
  let ?fk = "file_key projectId fileId"
  {
    assume a: "k \<in> s3 w \<and> flt ObjectExists = None \<and> flt UpdateFileStatus = None"
    have "confirmUpload ?flt now reqUserId projectId fileId w =
           (Response 200 (Ok (Row (Some (row(''status'' \<mapsto> S ''uploaded''))))),
            w\<lparr>tbl := updateProjectStats_caught (?flt UpdateProjectStats) now (userIdOf reqUserId)
                        projectId 1 (number_of (row ''fileSize''))
                        (AList.update ?fk (row(''status'' \<mapsto> S ''uploaded'')) (tbl w))\<rparr>)"
      using row key a get by (intro confirm_step[where k = k]) simp_all
    then show "\<exists>w'. confirmUpload ?flt now reqUserId projectId fileId w
                     = (Response 200 (Ok (Row (Some (row(''status'' \<mapsto> S ''uploaded''))))), w')
                \<and> map_of (tbl w') ?fk = Some (row(''status'' \<mapsto> S ''uploaded''))
                \<and> s3 w' = s3 w"
      by (simp add: stats_caught_other_rows file_key_neq_project_key update_conv')
  }
  {
    assume a: "row ''status'' \<noteq> Some (S ''deleted'') \<and> hard \<noteq> Some (QStr ''true'')
                \<and> flt UpdateFileStatus = None"
    have "deleteFile ?flt now reqUserId projectId fileId hard w =
           (Response 200 (Ok (Message ''File deleted'')),
            w\<lparr>tbl := updateProjectStats_caught (?flt UpdateProjectStats) now (userIdOf reqUserId)
                        projectId (- 1) (negated (row ''fileSize''))
                        (AList.update ?fk (row(''status'' \<mapsto> S ''deleted'')) (tbl w))\<rparr>)"
      using row a get by (intro deleteFile_soft_step) simp_all
    then show "\<exists>w'. deleteFile ?flt now reqUserId projectId fileId hard w
                     = (Response 200 (Ok (Message ''File deleted'')), w')
                \<and> map_of (tbl w') ?fk = Some (row(''status'' \<mapsto> S ''deleted''))
                \<and> s3 w' = s3 w"
      by (simp add: stats_caught_other_rows file_key_neq_project_key update_conv')
  }
  {
    assume a: "flt DeleteObject = None \<and> flt HardDeleteFile = None"
    have "deleteFile ?flt now reqUserId projectId fileId (Some (QStr ''true'')) w =
           (Response 200 (Ok (Message ''File permanently deleted'')),
            w\<lparr>tbl := updateProjectStats_caught (?flt UpdateProjectStats) now (userIdOf reqUserId)
                        projectId (- 1) (negated (row ''fileSize''))
                        (AList.delete ?fk (tbl w)),
              s3 := s3 w - {k}\<rparr>)"
      using row key a get by (intro deleteFile_hard_step) simp_all
    then show "\<exists>w'. deleteFile ?flt now reqUserId projectId fileId (Some (QStr ''true'')) w
                     = (Response 200 (Ok (Message ''File permanently deleted'')), w')
                \<and> map_of (tbl w') ?fk = None
                \<and> s3 w' = s3 w - {k}"
      by (simp add: stats_caught_other_rows file_key_neq_project_key delete_conv')
  }
qed

theorem counter_failure_is_swallowed_witness:
  "map_of (tbl \<lparr>tbl = [(file_key ''p-1'' ''f-1'', example_file)],
                s3 = {''p-1/f-1/plan.pdf''}\<rparr>) (file_key ''p-1'' ''f-1'') = Some example_file
   \<and> example_file ''s3Key'' = Some (S ''p-1/f-1/plan.pdf'')
   \<and> no_faults GetFileById = None
   \<and> ''p-1/f-1/plan.pdf'' \<in> s3 \<lparr>tbl = [(file_key ''p-1'' ''f-1'', example_file)],
                                   s3 = {''p-1/f-1/plan.pdf''}\<rparr>
   \<and> no_faults ObjectExists = None \<and> no_faults UpdateFileStatus = None
   \<and> example_file ''status'' \<noteq> Some (S ''deleted'') \<and> None \<noteq> Some (QStr ''true'')
   \<and> no_faults DeleteObject = None \<and> no_faults HardDeleteFile = None
   \<and> (\<exists>w'. confirmUpload (no_faults(UpdateProjectStats := Some ServiceError))
               ''2024-05-04T12:00:00.000Z'' (Some ''alice'') ''p-1'' ''f-1''
               \<lparr>tbl = [(file_key ''p-1'' ''f-1'', example_file)], s3 = {''p-1/f-1/plan.pdf''}\<rparr>
             = (Response 200 (Ok (Row (Some (example_file(''status'' \<mapsto> S ''uploaded''))))), w')
         \<and> map_of (tbl w') (file_key ''p-1'' ''f-1'')
             = Some (example_file(''status'' \<mapsto> S ''uploaded''))
         \<and> s3 w' = s3 \<lparr>tbl = [(file_key ''p-1'' ''f-1'', example_file)],
                        s3 = {''p-1/f-1/plan.pdf''}\<rparr>)
   \<and> (\<exists>w'. deleteFile (no_faults(UpdateProjectStats := Some ServiceError))
               ''2024-05-04T12:00:00.000Z'' (Some ''alice'') ''p-1'' ''f-1'' None
               \<lparr>tbl = [(file_key ''p-1'' ''f-1'', example_file)], s3 = {''p-1/f-1/plan.pdf''}\<rparr>
             = (Response 200 (Ok (Message ''File deleted'')), w')
         \<and> map_of (tbl w') (file_key ''p-1'' ''f-1'')
             = Some (example_file(''status'' \<mapsto> S ''deleted''))
         \<and> s3 w' = s3 \<lparr>tbl = [(file_key ''p-1'' ''f-1'', example_file)],
                        s3 = {''p-1/f-1/plan.pdf''}\<rparr>)
   \<and> (\<exists>w'. deleteFile (no_faults(UpdateProjectStats := Some ServiceError))
               ''2024-05-04T12:00:00.000Z'' (Some ''alice'') ''p-1'' ''f-1'' (Some (QStr ''true''))
               \<lparr>tbl = [(file_key ''p-1'' ''f-1'', example_file)], s3 = {''p-1/f-1/plan.pdf''}\<rparr>
             = (Response 200 (Ok (Message ''File permanently deleted'')), w')
         \<and> map_of (tbl w') (file_key ''p-1'' ''f-1'') = None
         \<and> s3 w' = s3 \<lparr>tbl = [(file_key ''p-1'' ''f-1'', example_file)],
                        s3 = {''p-1/f-1/plan.pdf''}\<rparr> - {''p-1/f-1/plan.pdf''})"
proof -
  let ?w = "\<lparr>tbl = [(file_key ''p-1'' ''f-1'', example_file)], s3 = {''p-1/f-1/plan.pdf''}\<rparr>"
  have row: "map_of (tbl ?w) (file_key ''p-1'' ''f-1'') = Some example_file"
    by simp
  have key: "example_file ''s3Key'' = Some (S ''p-1/f-1/plan.pdf'')"
    and live: "example_file ''status'' \<noteq> Some (S ''deleted'')"
    by (simp_all add: example_file_def file_item_def)
  have store: "no_faults GetFileById = None" "no_faults ObjectExists = None"
    "no_faults UpdateFileStatus = None" "no_faults DeleteObject = None"
    "no_faults HardDeleteFile = None"
    by (simp_all add: no_faults_def)
  have present: "''p-1/f-1/plan.pdf'' \<in> s3 ?w" and soft: "None \<noteq> Some (QStr ''true'')"
    by simp_all
  from counter_failure_is_swallowed[where row = example_file and flt = no_faults
      and sf = "Some ServiceError" and now = "''2024-05-04T12:00:00.000Z''"
      and reqUserId = "Some ''alice''" and hard = None, OF row key store(1)]
  show ?thesis
    using row key live store present soft by blast
qed

text \<open>
  C10, as the claim states it, fails: the counters that are adjusted are those of the project
  row under the caller's user id. When another user confirms a file of the project (or the
  project has no row), the confirm succeeds and no counter changes.
\<close>

theorem confirm_counterexample:
  "fst (confirmUpload no_faults ''2024-05-04T12:00:00.000Z'' (Some ''bob'') ''p-1'' ''f-1''
          \<lparr>tbl = [(file_key ''p-1'' ''f-1'', example_file),
                  (project_key ''alice'' ''p-1'', example_project)],
           s3 = {''p-1/f-1/plan.pdf''}\<rparr>)
     = Response 200 (Ok (Row (Some (example_file(''status'' \<mapsto> S ''uploaded'')))))
   \<and> map_of (tbl (snd (confirmUpload no_faults ''2024-05-04T12:00:00.000Z'' (Some ''bob'')
          ''p-1'' ''f-1''
          \<lparr>tbl = [(file_key ''p-1'' ''f-1'', example_file),
                  (project_key ''alice'' ''p-1'', example_project)],
           s3 = {''p-1/f-1/plan.pdf''}\<rparr>))) (project_key ''alice'' ''p-1'')
     = Some example_project
   \<and> example_project ''fileCount'' = Some (N 0)
   \<and> example_project ''totalSize'' = Some (N 0)
   \<and> map_of (tbl (snd (confirmUpload no_faults ''2024-05-04T12:00:00.000Z'' (Some ''bob'')
          ''p-1'' ''f-1''
          \<lparr>tbl = [(file_key ''p-1'' ''f-1'', example_file),
                  (project_key ''alice'' ''p-1'', example_project)],
           s3 = {''p-1/f-1/plan.pdf''}\<rparr>))) (project_key ''bob'' ''p-1'')
     = None"
proof -
  let ?w = "\<lparr>tbl = [(file_key ''p-1'' ''f-1'', example_file),
                  (project_key ''alice'' ''p-1'', example_project)],
           s3 = {''p-1/f-1/plan.pdf''}\<rparr>"
  have row: "map_of (tbl ?w) (file_key ''p-1'' ''f-1'') = Some example_file"
    by simp
  have key: "example_file ''s3Key'' = Some (S ''p-1/f-1/plan.pdf'')"
    by (simp add: example_file_def file_item_def)
  have step: "confirmUpload no_faults ''2024-05-04T12:00:00.000Z'' (Some ''bob'') ''p-1'' ''f-1'' ?w
      = (Response 200 (Ok (Row (Some (example_file(''status'' \<mapsto> S ''uploaded''))))),
         ?w\<lparr>tbl := updateProjectStats_caught (no_faults UpdateProjectStats)
                    ''2024-05-04T12:00:00.000Z'' (userIdOf (Some ''bob'')) ''p-1'' 1
                    (number_of (example_file ''fileSize''))
                    (AList.update (file_key ''p-1'' ''f-1'')
                       (example_file(''status'' \<mapsto> S ''uploaded'')) (tbl ?w))\<rparr>)"
    using row key by (intro confirm_step[where k = "''p-1/f-1/plan.pdf''"])
      (simp_all add: no_faults_def)
  have stats: "updateProjectStats_caught (no_faults UpdateProjectStats)
                    ''2024-05-04T12:00:00.000Z'' (userIdOf (Some ''bob'')) ''p-1'' 1
                    (number_of (example_file ''fileSize''))
                    (AList.update (file_key ''p-1'' ''f-1'')
                       (example_file(''status'' \<mapsto> S ''uploaded'')) (tbl ?w))
               = AList.update (file_key ''p-1'' ''f-1'')
                       (example_file(''status'' \<mapsto> S ''uploaded'')) (tbl ?w)"
    by (simp add: updateProjectStats_caught_def updateProjectStats_def UpdateCommand_def
          apply_actions_def number_of_def example_file_def file_item_def no_faults_def
          file_key_def project_key_def userIdOf_def)
  have counters: "example_project ''fileCount'' = Some (N 0)"
    "example_project ''totalSize'' = Some (N 0)"
    by (simp_all add: example_project_def project_item_def)
  show ?thesis
    unfolding step stats using counters
    by (simp add: file_key_def project_key_def)
qed

text \<open>
  C10, amended. \<open>confirmUpload\<close> does not look at the current status of the row: for every
  existing row whose object is in the bucket, whatever its status, the answer is 200 and the
  row's status becomes \<open>uploaded\<close>; no row but this one and the caller's project row changes.
  When the caller's project row exists with numeric counters and the counter update goes
  through, \<open>fileCount\<close> grows by 1 and \<open>totalSize\<close> by the file size, and confirming the same
  file again adds the same amounts once more. When the caller has no project row, none is
  created.
\<close>

theorem confirm_ignores_current_status:
  assumes row: "map_of (tbl w) (file_key projectId fileId) = Some row"
    and key: "row ''s3Key'' = Some (S k)"
    and present: "k \<in> s3 w"
    and store: "flt GetFileById = None" "flt ObjectExists = None" "flt UpdateFileStatus = None"
  shows "\<exists>w'.
           confirmUpload flt now reqUserId projectId fileId w
             = (Response 200 (Ok (Row (Some (row(''status'' \<mapsto> S ''uploaded''))))), w')
         \<and> map_of (tbl w') (file_key projectId fileId) = Some (row(''status'' \<mapsto> S ''uploaded''))
         \<and> s3 w' = s3 w
         \<and> (\<forall>k. k \<noteq> file_key projectId fileId
                  \<and> k \<noteq> project_key (userIdOf reqUserId) projectId
                \<longrightarrow> map_of (tbl w') k = map_of (tbl w) k)
         \<and> (map_of (tbl w) (project_key (userIdOf reqUserId) projectId) = None
            \<longrightarrow> map_of (tbl w') (project_key (userIdOf reqUserId) projectId) = None)
         \<and> (flt UpdateProjectStats = None
              \<and> row ''fileSize'' = Some (N sz)
              \<and> map_of (tbl w) (project_key (userIdOf reqUserId) projectId) = Some prow
              \<and> prow ''fileCount'' = Some (N c) \<and> prow ''totalSize'' = Some (N s)
            \<longrightarrow> (\<exists>prow' w'' prow''.
                   map_of (tbl w') (project_key (userIdOf reqUserId) projectId) = Some prow'
                 \<and> prow' ''fileCount'' = Some (N (c + 1))
                 \<and> prow' ''totalSize'' = Some (N (s + sz))
                 \<and> confirmUpload flt now' reqUserId projectId fileId w'
                     = (Response 200 (Ok (Row (Some (row(''status'' \<mapsto> S ''uploaded''))))), w'')
                 \<and> map_of (tbl w'') (file_key projectId fileId)
                     = Some (row(''status'' \<mapsto> S ''uploaded''))
                 \<and> map_of (tbl w'') (project_key (userIdOf reqUserId) projectId) = Some prow''
                 \<and> prow'' ''fileCount'' = Some (N (c + 2))
                 \<and> prow'' ''totalSize'' = Some (N (s + 2 * sz))))"
proof -
  let ?fk = "file_key projectId fileId"
  let ?pk = "project_key (userIdOf reqUserId) projectId"
  let ?row' = "row(''status'' \<mapsto> S ''uploaded'')"
  let ?w' = "w\<lparr>tbl := updateProjectStats_caught (flt UpdateProjectStats) now (userIdOf reqUserId)
                      projectId 1 (number_of (row ''fileSize''))
                      (AList.update ?fk ?row' (tbl w))\<rparr>"
  have step: "confirmUpload flt now reqUserId projectId fileId w
                = (Response 200 (Ok (Row (Some ?row'))), ?w')"
    using row key present store by (intro confirm_step[where k = k]) simp_all
  have r1: "map_of (tbl ?w') ?fk = Some ?row'"
    by (simp add: stats_caught_other_rows file_key_neq_project_key update_conv')
  have b1: "s3 ?w' = s3 w"
    by simp
  have others: "\<forall>k. k \<noteq> ?fk \<and> k \<noteq> ?pk \<longrightarrow> map_of (tbl ?w') k = map_of (tbl w) k"
    by (simp add: stats_caught_other_rows update_conv')
  have none: "map_of (tbl ?w') ?pk = None" if "map_of (tbl w) ?pk = None"
  proof -
    have "?pk \<noteq> ?fk"
      using file_key_neq_project_key[of projectId fileId "userIdOf reqUserId" projectId] by simp
    with that have "map_of (AList.update ?fk ?row' (tbl w)) ?pk = None"
      by (simp add: update_conv')
    then show ?thesis
      by (simp add: stats_caught_missing_row)
  qed
  have counted: "\<exists>prow' w'' prow''.
                   map_of (tbl ?w') ?pk = Some prow'
                 \<and> prow' ''fileCount'' = Some (N (c + 1))
                 \<and> prow' ''totalSize'' = Some (N (s + sz))
                 \<and> confirmUpload flt now' reqUserId projectId fileId ?w'
                     = (Response 200 (Ok (Row (Some ?row'))), w'')
                 \<and> map_of (tbl w'') ?fk = Some ?row'
                 \<and> map_of (tbl w'') ?pk = Some prow''
                 \<and> prow'' ''fileCount'' = Some (N (c + 2))
                 \<and> prow'' ''totalSize'' = Some (N (s + 2 * sz))"
    if stats: "flt UpdateProjectStats = None" and size: "row ''fileSize'' = Some (N sz)"
      and project: "map_of (tbl w) ?pk = Some prow"
      and counters: "prow ''fileCount'' = Some (N c)" "prow ''totalSize'' = Some (N s)"
  proof -
    from confirm_adds_to_counters[where row = row and flt = flt and prow = prow and now = now,
        OF row key present size project counters store stats]
    obtain prow' where
      p1: "map_of (tbl ?w') ?pk = Some prow'"
      and n1: "prow' ''fileCount'' = Some (N (c + 1))" "prow' ''totalSize'' = Some (N (s + sz))"
      using step by auto
    have k1: "?row' ''s3Key'' = Some (S k)" and s1: "?row' ''fileSize'' = Some (N sz)"
      using key size by simp_all
    have in1: "k \<in> s3 ?w'"
      using present by simp
    from confirm_adds_to_counters[where row = ?row' and flt = flt and prow = prow'
        and now = now' and w = ?w', OF r1 k1 in1 s1 p1 n1 store stats]
    obtain w'' prow'' where
      c2: "confirmUpload flt now' reqUserId projectId fileId ?w'
             = (Response 200 (Ok (Row (Some (?row'(''status'' \<mapsto> S ''uploaded''))))), w'')"
      and r2: "map_of (tbl w'') ?fk = Some (?row'(''status'' \<mapsto> S ''uploaded''))"
      and p2: "map_of (tbl w'') ?pk = Some prow''"
      and n2: "prow'' ''fileCount'' = Some (N (c + 1 + 1))"
              "prow'' ''totalSize'' = Some (N (s + sz + sz))"
      by blast
    show ?thesis
      using p1 n1 c2 r2 p2 n2
      by (intro exI[of _ prow'] exI[of _ w''] exI[of _ prow'']) simp
  qed
  show ?thesis
    using step r1 b1 others none counted by (intro exI[of _ ?w']) blast
qed

theorem confirm_ignores_current_status_witness:
  "map_of (tbl \<lparr>tbl = [(file_key ''p-1'' ''f-1'', example_file(''status'' \<mapsto> S ''deleted'')),
                       (project_key ''alice'' ''p-1'', example_project)],
                s3 = {''p-1/f-1/plan.pdf''}\<rparr>) (file_key ''p-1'' ''f-1'')
      = Some (example_file(''status'' \<mapsto> S ''deleted''))
   \<and> (example_file(''status'' \<mapsto> S ''deleted'')) ''s3Key'' = Some (S ''p-1/f-1/plan.pdf'')
   \<and> ''p-1/f-1/plan.pdf''
        \<in> s3 \<lparr>tbl = [(file_key ''p-1'' ''f-1'', example_file(''status'' \<mapsto> S ''deleted'')),
                      (project_key ''alice'' ''p-1'', example_project)],
               s3 = {''p-1/f-1/plan.pdf''}\<rparr>
   \<and> no_faults GetFileById = None \<and> no_faults ObjectExists = None
   \<and> no_faults UpdateFileStatus = None \<and> no_faults UpdateProjectStats = None
   \<and> (example_file(''status'' \<mapsto> S ''deleted'')) ''fileSize'' = Some (N 2048)
   \<and> map_of (tbl \<lparr>tbl = [(file_key ''p-1'' ''f-1'', example_file(''status'' \<mapsto> S ''deleted'')),
                         (project_key ''alice'' ''p-1'', example_project)],
                  s3 = {''p-1/f-1/plan.pdf''}\<rparr>) (project_key (userIdOf (Some ''alice'')) ''p-1'')
      = Some example_project
   \<and> example_project ''fileCount'' = Some (N 0) \<and> example_project ''totalSize'' = Some (N 0)
   \<and> (\<exists>w' w'' prow' prow''.
         confirmUpload no_faults ''2024-05-04T12:00:00.000Z'' (Some ''alice'') ''p-1'' ''f-1''
            \<lparr>tbl = [(file_key ''p-1'' ''f-1'', example_file(''status'' \<mapsto> S ''deleted'')),
                    (project_key ''alice'' ''p-1'', example_project)],
             s3 = {''p-1/f-1/plan.pdf''}\<rparr>
           = (Response 200 (Ok (Row (Some (example_file(''status'' \<mapsto> S ''deleted'',
                                                         ''status'' \<mapsto> S ''uploaded''))))), w')
         \<and> map_of (tbl w') (file_key ''p-1'' ''f-1'')
             = Some (example_file(''status'' \<mapsto> S ''deleted'', ''status'' \<mapsto> S ''uploaded''))
         \<and> map_of (tbl w') (project_key (userIdOf (Some ''alice'')) ''p-1'') = Some prow'
         \<and> prow' ''fileCount'' = Some (N 1)
         \<and> prow' ''totalSize'' = Some (N 2048)
         \<and> confirmUpload no_faults ''2024-05-04T12:30:00.000Z'' (Some ''alice'') ''p-1'' ''f-1'' w'
           = (Response 200 (Ok (Row (Some (example_file(''status'' \<mapsto> S ''deleted'',
                                                         ''status'' \<mapsto> S ''uploaded''))))), w'')
         \<and> map_of (tbl w'') (file_key ''p-1'' ''f-1'')
             = Some (example_file(''status'' \<mapsto> S ''deleted'', ''status'' \<mapsto> S ''uploaded''))
         \<and> map_of (tbl w'') (project_key (userIdOf (Some ''alice'')) ''p-1'') = Some prow''
         \<and> prow'' ''fileCount'' = Some (N 2)
         \<and> prow'' ''totalSize'' = Some (N 4096))"
proof -
  let ?row = "example_file(''status'' \<mapsto> S ''deleted'')"
  let ?w = "\<lparr>tbl = [(file_key ''p-1'' ''f-1'', ?row),
                   (project_key ''alice'' ''p-1'', example_project)],
            s3 = {''p-1/f-1/plan.pdf''}\<rparr>"
  have row: "map_of (tbl ?w) (file_key ''p-1'' ''f-1'') = Some ?row"
    by simp
  have key: "?row ''s3Key'' = Some (S ''p-1/f-1/plan.pdf'')"
    and size: "?row ''fileSize'' = Some (N 2048)"
    by (simp_all add: example_file_def file_item_def)
  have present: "''p-1/f-1/plan.pdf'' \<in> s3 ?w"
    by simp
  have project: "map_of (tbl ?w) (project_key (userIdOf (Some ''alice'')) ''p-1'')
                   = Some example_project"
    by (simp add: file_key_def project_key_def userIdOf_def)
  have counters: "example_project ''fileCount'' = Some (N 0)"
    "example_project ''totalSize'' = Some (N 0)"
    by (simp_all add: example_project_def project_item_def)
  have store: "no_faults GetFileById = None" "no_faults ObjectExists = None"
    "no_faults UpdateFileStatus = None"
    and stats: "no_faults UpdateProjectStats = None"
    by (simp_all add: no_faults_def)
  from confirm_ignores_current_status[where row = ?row and flt = no_faults
      and prow = example_project and now = "''2024-05-04T12:00:00.000Z''"
      and now' = "''2024-05-04T12:30:00.000Z''" and reqUserId = "Some ''alice''"
      and sz = 2048 and c = 0 and s = 0, OF row key present store]
  obtain w' where
    a: "confirmUpload no_faults ''2024-05-04T12:00:00.000Z'' (Some ''alice'') ''p-1'' ''f-1'' ?w
          = (Response 200 (Ok (Row (Some (?row(''status'' \<mapsto> S ''uploaded''))))), w')"
    and b: "map_of (tbl w') (file_key ''p-1'' ''f-1'') = Some (?row(''status'' \<mapsto> S ''uploaded''))"
    and c: "\<exists>prow' w'' prow''.
                   map_of (tbl w') (project_key (userIdOf (Some ''alice'')) ''p-1'') = Some prow'
                 \<and> prow' ''fileCount'' = Some (N (0 + 1))
                 \<and> prow' ''totalSize'' = Some (N (0 + 2048))
                 \<and> confirmUpload no_faults ''2024-05-04T12:30:00.000Z'' (Some ''alice'') ''p-1'' ''f-1'' w'
                     = (Response 200 (Ok (Row (Some (?row(''status'' \<mapsto> S ''uploaded''))))), w'')
                 \<and> map_of (tbl w'') (file_key ''p-1'' ''f-1'')
                     = Some (?row(''status'' \<mapsto> S ''uploaded''))
                 \<and> map_of (tbl w'') (project_key (userIdOf (Some ''alice'')) ''p-1'') = Some prow''
                 \<and> prow'' ''fileCount'' = Some (N (0 + 2))
                 \<and> prow'' ''totalSize'' = Some (N (0 + 2 * 2048))"
    using stats size project counters by blast
  from c obtain prow' w'' prow'' where
    d: "map_of (tbl w') (project_key (userIdOf (Some ''alice'')) ''p-1'') = Some prow'"
       "prow' ''fileCount'' = Some (N 1)" "prow' ''totalSize'' = Some (N 2048)"
       "confirmUpload no_faults ''2024-05-04T12:30:00.000Z'' (Some ''alice'') ''p-1'' ''f-1'' w'
          = (Response 200 (Ok (Row (Some (?row(''status'' \<mapsto> S ''uploaded''))))), w'')"
       "map_of (tbl w'') (file_key ''p-1'' ''f-1'') = Some (?row(''status'' \<mapsto> S ''uploaded''))"
       "map_of (tbl w'') (project_key (userIdOf (Some ''alice'')) ''p-1'') = Some prow''"
       "prow'' ''fileCount'' = Some (N 2)" "prow'' ''totalSize'' = Some (N 4096)"
    by auto
  have "\<exists>w' w'' prow' prow''.
         confirmUpload no_faults ''2024-05-04T12:00:00.000Z'' (Some ''alice'') ''p-1'' ''f-1'' ?w
           = (Response 200 (Ok (Row (Some (?row(''status'' \<mapsto> S ''uploaded''))))), w')
         \<and> map_of (tbl w') (file_key ''p-1'' ''f-1'') = Some (?row(''status'' \<mapsto> S ''uploaded''))
         \<and> map_of (tbl w') (project_key (userIdOf (Some ''alice'')) ''p-1'') = Some prow'
         \<and> prow' ''fileCount'' = Some (N 1)
         \<and> prow' ''totalSize'' = Some (N 2048)
         \<and> confirmUpload no_faults ''2024-05-04T12:30:00.000Z'' (Some ''alice'') ''p-1'' ''f-1'' w'
           = (Response 200 (Ok (Row (Some (?row(''status'' \<mapsto> S ''uploaded''))))), w'')
         \<and> map_of (tbl w'') (file_key ''p-1'' ''f-1'') = Some (?row(''status'' \<mapsto> S ''uploaded''))
         \<and> map_of (tbl w'') (project_key (userIdOf (Some ''alice'')) ''p-1'') = Some prow''
         \<and> prow'' ''fileCount'' = Some (N 2)
         \<and> prow'' ''totalSize'' = Some (N 4096)"
    using a b d by (intro exI[of _ w'] exI[of _ w''] exI[of _ prow'] exI[of _ prow'']) (intro conjI)
  then show ?thesis
    using row key present store stats size project counters by (intro conjI)
qed

end
